theory Spec2Isabelle
  imports Main "HOL-Library.Sublist" "HOL-Library.Char_ord" "HOL-Library.List_Lexorder"
begin

section \<open>Strings as Python uses them\<close>

text \<open>
  File names, codec names and language tags are ASCII here; a \<open>string\<close> is a list of
  bytes. \<open>str_int\<close> is Python's \<open>str\<close> on an integer, \<open>lower\<close> is \<open>str.lower\<close> and
  \<open>strip\<close> is \<open>str.strip\<close>, each on ASCII text.
\<close>

definition digit_char :: "nat \<Rightarrow> char" where
  "digit_char d = ''0123456789'' ! (d mod 10)"

fun digits_of :: "nat \<Rightarrow> string" where
  "digits_of n = (if n < 10 then [digit_char n] else digits_of (n div 10) @ [digit_char (n mod 10)])"

declare digits_of.simps [simp del]

definition str_int :: "int \<Rightarrow> string" where
  "str_int i = (if i < 0 then CHR ''-'' # digits_of (nat (- i)) else digits_of (nat i))"

definition lower_char :: "char \<Rightarrow> char" where
  "lower_char c =
     (let n = (of_char c :: nat) in if 65 \<le> n \<and> n \<le> 90 then char_of (n + 32) else c)"

definition lower :: "string \<Rightarrow> string" where
  "lower s = map lower_char s"

definition is_space :: "char \<Rightarrow> bool" where
  "is_space c = ((of_char c :: nat) \<in> {9, 10, 11, 12, 13, 28, 29, 30, 31, 32})"

definition strip :: "string \<Rightarrow> string" where
  "strip s = rev (dropWhile is_space (rev (dropWhile is_space s)))"

section \<open>Probe documents\<close>

text \<open>
  \<open>probe_streams\<close> returns the JSON document printed by the probe tool. A stream is a
  JSON object; each key the program reads may be missing, which is \<open>None\<close>. The \<open>tags\<close>
  object maps tag names to strings. The document's \<open>streams\<close> key may be missing too.
\<close>

record stream =
  index :: "int option"
  codec_type :: "string option"
  codec_name :: "string option"
  tags :: "(string \<rightharpoonup> string) option"

record probe_doc =
  streams :: "stream list option"

datatype exc = CalledProcessError | KeyError | OSError

text \<open>\<open>d.get("streams", [])\<close>\<close>

definition streams_of :: "probe_doc \<Rightarrow> stream list" where
  "streams_of d = (case streams d of None \<Rightarrow> [] | Some ss \<Rightarrow> ss)"

text \<open>\<open>s.get("tags", {}).get(key, dflt)\<close>\<close>

definition tag_or :: "stream \<Rightarrow> string \<Rightarrow> string \<Rightarrow> string" where
  "tag_or s key dflt =
     (case tags s of
        None \<Rightarrow> dflt
      | Some t \<Rightarrow> (case t key of None \<Rightarrow> dflt | Some v \<Rightarrow> v))"

text \<open>\<open>str(s["index"])\<close>: the subscript raises \<open>KeyError\<close> when the key is missing.\<close>

definition str_index :: "stream \<Rightarrow> exc + string" where
  "str_index s = (case index s of None \<Rightarrow> Inl KeyError | Some i \<Rightarrow> Inr (str_int i))"

text \<open>
  A list comprehension \<open>[f(s) for s in xs if c(s)]\<close>: the condition is evaluated first,
  the element expression only for the elements that pass, and the first exception ends
  the comprehension.
\<close>

fun comprehension :: "('a \<Rightarrow> bool) \<Rightarrow> ('a \<Rightarrow> exc + 'b) \<Rightarrow> 'a list \<Rightarrow> exc + 'b list" where
  "comprehension c f [] = Inr []"
| "comprehension c f (x # xs) =
     (if c x then
        (case f x of
           Inl e \<Rightarrow> Inl e
         | Inr y \<Rightarrow> (case comprehension c f xs of Inl e \<Rightarrow> Inl e | Inr ys \<Rightarrow> Inr (y # ys)))
      else comprehension c f xs)"

section \<open>Track selection\<close>

definition audio_cond :: "stream \<Rightarrow> bool" where
  "audio_cond s = (tag_or s ''language'' ''und'' \<in> set [''eng'', ''und''])"

definition get_english_audio_indices :: "probe_doc \<Rightarrow> exc + string list" where
  "get_english_audio_indices audio_streams =
     comprehension audio_cond str_index (streams_of audio_streams)"

fun first_video :: "stream list \<Rightarrow> string option" where
  "first_video [] = None"
| "first_video (s # ss) =
     (if codec_type s = Some ''video''
      then Some (lower (case codec_name s of None \<Rightarrow> '''' | Some n \<Rightarrow> n))
      else first_video ss)"

definition get_video_codec :: "probe_doc \<Rightarrow> string option" where
  "get_video_codec video_streams = first_video (streams_of video_streams)"

record subtitle =
  sub_index :: string
  sub_codec :: string
  sub_language :: string
  sub_title :: string

definition valid_codecs :: "string set" where
  "valid_codecs = {''subrip'', ''ass'', ''ssa'', ''mov_text''}"

definition subtitle_cond :: "stream \<Rightarrow> bool" where
  "subtitle_cond s =
     ((case codec_name s of None \<Rightarrow> False | Some n \<Rightarrow> n \<in> valid_codecs)
      \<and> tag_or s ''language'' ''und'' \<in> set [''eng'', ''und''])"

definition subtitle_entry :: "stream \<Rightarrow> exc + subtitle" where
  "subtitle_entry s =
     (case str_index s of
        Inl e \<Rightarrow> Inl e
      | Inr i \<Rightarrow>
          Inr \<lparr> sub_index = i,
                sub_codec = (case codec_name s of None \<Rightarrow> ''unknown'' | Some n \<Rightarrow> n),
                sub_language = tag_or s ''language'' ''und'',
                sub_title = strip (tag_or s ''title'' '''') \<rparr>)"

definition get_subtitle_streams :: "probe_doc \<Rightarrow> exc + subtitle list" where
  "get_subtitle_streams subtitle_streams =
     comprehension subtitle_cond subtitle_entry (streams_of subtitle_streams)"

section \<open>Command builder\<close>

definition encode_template :: "string \<Rightarrow> string list" where
  "encode_template input_file =
     [''ffmpeg'', ''-i'', input_file, ''-y'',
      ''-c:v'', ''libx265'', ''-x265-params'', ''log-level=0'', ''-preset'', ''fast'', ''-crf'', ''23'',
      ''-c:a'', ''aac'', ''-b:a'', ''192k'', ''-channel_layout'', ''5.1'',
      ''-map'', ''0:v:0'', ''-map_metadata'', ''-1'',
      ''-tag:v'', ''hvc1'', ''-movflags'', ''+faststart'', ''-loglevel'', ''quiet'']"

definition remux_template :: "string \<Rightarrow> string list" where
  "remux_template input_file =
     [''ffmpeg'', ''-i'', input_file, ''-y'',
      ''-c:v'', ''copy'', ''-c:a'', ''copy'', ''-map'', ''0:v:0'', ''-map_metadata'', ''-1'',
      ''-movflags'', ''+faststart'', ''-loglevel'', ''quiet'']"

text \<open>One turn of the audio loop: two \<open>cmd.extend\<close> calls.\<close>

definition map_audio :: "string list \<Rightarrow> string \<Rightarrow> string list" where
  "map_audio cmd idx = (cmd @ [''-map'', ''0:'' @ idx]) @ [''-metadata:s:a:0'', ''language=eng'']"

definition build_ffmpeg_cmd ::
  "string \<Rightarrow> string \<Rightarrow> string \<Rightarrow> string option \<Rightarrow> string list \<Rightarrow> subtitle list \<Rightarrow> string list" where
  "build_ffmpeg_cmd input_file temp_file mode video_codec audio_indices subtitle_streams =
     (let cmd0 = (if mode = ''encode'' then encode_template input_file
                  else remux_template input_file
                       @ (if video_codec = Some ''hevc'' then [''-tag:v'', ''hvc1''] else []));
          cmd1 = (if audio_indices \<noteq> [] then foldl map_audio cmd0 audio_indices else cmd0);
          cmd2 = (case subtitle_streams of
                    [] \<Rightarrow> cmd1
                  | sub # _ \<Rightarrow>
                      cmd1 @ [''-map'', ''0:'' @ sub_index sub, ''-c:s'', ''mov_text'',
                              ''-metadata:s:s:0'', ''language='' @ sub_language sub])
      in cmd2 @ [temp_file])"

section \<open>The world outside the program\<close>

text \<open>
  The file system is the set of paths that exist. \<open>ops\<close> records, in order, the
  file-system calls that took effect and every engine run; \<open>logged\<close> holds the printed
  status lines (the ASCII symbol set; numbers and exception texts interpolated into a
  line are left out). The progress thread only prints, and is not part of the model.

  What the program cannot decide is read from an environment: the probe tool's answer
  for a file and a stream filter, the engine's exit for a command, whether a
  file-system call raises, and the name the temporary-file allocator returns. A call
  that raises leaves the file system as it was.
\<close>

datatype fs_op =
    Create string
  | MakeDirs string
  | GetSize string
  | Move string string
  | Remove string
  | RunEngine "string list"

record world =
  files :: "string set"
  logged :: "string list"
  ops :: "fs_op list"

record env =
  probe :: "string \<Rightarrow> string option \<Rightarrow> exc + probe_doc"
  engine :: "string list \<Rightarrow> exc option"
  os_fails :: "fs_op \<Rightarrow> bool"
  mktemp :: "string \<Rightarrow> string"

definition SYMBOL_SUCCESS :: string where "SYMBOL_SUCCESS = ''[+] ''"
definition SYMBOL_ERROR :: string where "SYMBOL_ERROR = ''[X] ''"
definition SYMBOL_INFO :: string where "SYMBOL_INFO = ''[i]''"
definition SYMBOL_FINAL :: string where "SYMBOL_FINAL = ''[!!!]''"

definition print :: "string \<Rightarrow> world \<Rightarrow> world" where
  "print line w = w\<lparr>logged := logged w @ [line]\<rparr>"

definition did :: "fs_op \<Rightarrow> world \<Rightarrow> world" where
  "did opn w = w\<lparr>ops := ops w @ [opn]\<rparr>"

definition os_makedirs :: "env \<Rightarrow> string \<Rightarrow> world \<Rightarrow> exc option \<times> world" where
  "os_makedirs ev p w =
     (if os_fails ev (MakeDirs p) then (Some OSError, w)
      else (None, did (MakeDirs p) (w\<lparr>files := insert p (files w)\<rparr>)))"

definition os_getsize :: "env \<Rightarrow> string \<Rightarrow> world \<Rightarrow> exc option \<times> world" where
  "os_getsize ev p w =
     (if p \<notin> files w \<or> os_fails ev (GetSize p) then (Some OSError, w) else (None, w))"

definition shutil_move :: "env \<Rightarrow> string \<Rightarrow> string \<Rightarrow> world \<Rightarrow> exc option \<times> world" where
  "shutil_move ev src dst w =
     (if src \<notin> files w \<or> os_fails ev (Move src dst) then (Some OSError, w)
      else (None, did (Move src dst) (w\<lparr>files := insert dst (files w - {src})\<rparr>)))"

definition os_remove :: "env \<Rightarrow> string \<Rightarrow> world \<Rightarrow> exc option \<times> world" where
  "os_remove ev p w =
     (if p \<notin> files w \<or> os_fails ev (Remove p) then (Some OSError, w)
      else (None, did (Remove p) (w\<lparr>files := files w - {p}\<rparr>)))"

text \<open>Statement sequencing inside a \<open>try\<close> block: the first exception ends the block.\<close>

definition then_do ::
  "exc option \<times> world \<Rightarrow> (world \<Rightarrow> exc option \<times> world) \<Rightarrow> exc option \<times> world" where
  "then_do r f = (case r of (None, w) \<Rightarrow> f w | (Some e, w) \<Rightarrow> (Some e, w))"

section \<open>Conversion runner\<close>

text \<open>
  The \<open>try\<close> block of \<open>convert_to_mp4\<close>, in three parts: the three probes, selection
  with its two rejections, and the engine run. It yields the return value or the
  exception raised.
\<close>

definition run_engine :: "env \<Rightarrow> string list \<Rightarrow> string \<Rightarrow> world \<Rightarrow> (exc + bool) \<times> world" where
  "run_engine ev cmd mode w =
     (let w1 = did (RunEngine cmd) (print (SYMBOL_INFO @ '' Running in '' @ mode @ '' mode.'') w)
      in case engine ev cmd of
           Some e \<Rightarrow> (Inl e, w1)
         | None \<Rightarrow>
             (Inr True,
              print (SYMBOL_INFO @ '' Completed in'')
                (print (SYMBOL_SUCCESS @ '' Done processing.'') w1)))"

definition select_and_run ::
  "env \<Rightarrow> string \<Rightarrow> string \<Rightarrow> string \<Rightarrow> probe_doc \<Rightarrow> probe_doc \<Rightarrow> probe_doc \<Rightarrow> world
     \<Rightarrow> (exc + bool) \<times> world" where
  "select_and_run ev input_file temp_file mode audio_streams video_streams subtitle_streams w =
     (case get_english_audio_indices audio_streams of
        Inl e \<Rightarrow> (Inl e, w)
      | Inr audio_indices \<Rightarrow>
          (let video_codec = get_video_codec video_streams in
           case get_subtitle_streams subtitle_streams of
             Inl e \<Rightarrow> (Inl e, w)
           | Inr valid_subtitles \<Rightarrow>
               (if audio_indices = [] then
                  (Inr False, print (SYMBOL_ERROR @ '' No English audio found. Skipping.'') w)
                else if mode = ''remux'' \<and> video_codec = Some ''av1'' then
                  (Inr False,
                   print (SYMBOL_ERROR @ '' AV1 codec detected. Please use encode mode.'') w)
                else
                  run_engine ev
                    (build_ffmpeg_cmd input_file temp_file mode video_codec audio_indices
                       valid_subtitles)
                    mode w)))"

definition convert_try :: "env \<Rightarrow> string \<Rightarrow> string \<Rightarrow> string \<Rightarrow> world \<Rightarrow> (exc + bool) \<times> world" where
  "convert_try ev input_file temp_file mode w =
     (case probe ev input_file (Some ''a'') of
        Inl e \<Rightarrow> (Inl e, w)
      | Inr audio_streams \<Rightarrow>
          (case probe ev input_file None of
             Inl e \<Rightarrow> (Inl e, w)
           | Inr video_streams \<Rightarrow>
               (case probe ev input_file (Some ''s'') of
                  Inl e \<Rightarrow> (Inl e, w)
                | Inr subtitle_streams \<Rightarrow>
                    select_and_run ev input_file temp_file mode
                      audio_streams video_streams subtitle_streams w)))"

definition convert_to_mp4 :: "env \<Rightarrow> string \<Rightarrow> string \<Rightarrow> string \<Rightarrow> world \<Rightarrow> bool \<times> world" where
  "convert_to_mp4 ev input_file temp_file mode w =
     (case convert_try ev input_file temp_file mode w of
        (Inr r, w') \<Rightarrow> (r, w')
      | (Inl CalledProcessError, w') \<Rightarrow> (False, print (SYMBOL_ERROR @ '' FFmpeg error: '') w')
      | (Inl e, w') \<Rightarrow> (False, print (SYMBOL_ERROR @ '' Unexpected error: '') w'))"

section \<open>Batch orchestrator\<close>

text \<open>\<open>os.path.join\<close> and the root part of \<open>os.path.splitext\<close>, for POSIX paths.\<close>

definition path_join :: "string \<Rightarrow> string \<Rightarrow> string" where
  "path_join a b =
     (if (case b of [] \<Rightarrow> False | c # _ \<Rightarrow> c = CHR ''/'') then b
      else if a = [] \<or> last a = CHR ''/'' then a @ b
      else a @ ''/'' @ b)"

definition splitext_root :: "string \<Rightarrow> string" where
  "splitext_root p =
     (let rb = takeWhile (\<lambda>c. c \<noteq> CHR ''/'') (rev p) in
      if CHR ''.'' \<notin> set rb then p
      else
        let ext_rev = takeWhile (\<lambda>c. c \<noteq> CHR ''.'') rb;
            stem = drop (length ext_rev + 1) rb
        in if list_all (\<lambda>c. c = CHR ''.'') stem then p
           else take (length p - (length ext_rev + 1)) p)"

definition words_to_ignore :: "string list" where
  "words_to_ignore = [''sample'', ''SAMPLE'', ''Sample'', ''.DS_Store'']"

definition video_formats :: "string list" where
  "video_formats = [''.mkv'', ''.mp4'', ''.avi'']"

text \<open>The \<open>try\<close> block after a successful conversion.\<close>

definition finalize ::
  "env \<Rightarrow> bool \<Rightarrow> string \<Rightarrow> string \<Rightarrow> string \<Rightarrow> string \<Rightarrow> world \<Rightarrow> exc option \<times> world" where
  "finalize ev create_subfolders output_file_dir input_file_path temp_output_file output_file_path w =
     then_do (then_do (then_do (then_do
       (if create_subfolders then os_makedirs ev output_file_dir w else (None, w))
       (os_getsize ev input_file_path))
       (os_getsize ev temp_output_file))
       (shutil_move ev temp_output_file output_file_path))
       (\<lambda>w'. os_remove ev input_file_path (print (SYMBOL_INFO @ '' Moved encoded file.'') w'))"

definition report_total :: "world \<Rightarrow> world" where
  "report_total w = print (SYMBOL_FINAL @ '' Done! Total runtime: '') w"

text \<open>Where the converted file goes: \<open>output_file_dir\<close> and \<open>output_file_path\<close>.\<close>

definition output_file_dir_of :: "string \<Rightarrow> string \<Rightarrow> string" where
  "output_file_dir_of output_path file = path_join output_path (splitext_root file)"

definition output_file_path_of :: "string \<Rightarrow> bool \<Rightarrow> string \<Rightarrow> string" where
  "output_file_path_of output_path create_subfolders file =
     (let output_folder_name = splitext_root file;
          output_file_name = output_folder_name @ ''.mp4''
      in if create_subfolders
         then path_join (output_file_dir_of output_path file) output_file_name
         else path_join output_path output_file_name)"

text \<open>One turn of the loop over the files, for the file numbered \<open>idx\<close> of \<open>total_files\<close>.\<close>

definition process_file ::
  "env \<Rightarrow> string \<Rightarrow> string \<Rightarrow> string \<Rightarrow> bool \<Rightarrow> nat \<Rightarrow> nat \<Rightarrow> string \<Rightarrow> world \<Rightarrow> world" where
  "process_file ev input_path output_path first_run create_subfolders total_files idx file w =
     (let input_file_path = path_join input_path file;
          output_file_dir = output_file_dir_of output_path file;
          output_file_path = output_file_path_of output_path create_subfolders file;
          temp_output_file = mktemp ev file;
          w1 = did (Create temp_output_file) (w\<lparr>files := insert temp_output_file (files w)\<rparr>);
          w2 = print (SYMBOL_INFO @ SYMBOL_INFO @ '' File '' @ str_int (int idx) @ ''/''
                        @ str_int (int total_files)) w1;
          w3 = print (SYMBOL_INFO @ '' Processing: '' @ file) w2
      in case convert_to_mp4 ev input_file_path temp_output_file first_run w3 of
           (True, w4) \<Rightarrow>
             (case finalize ev create_subfolders output_file_dir input_file_path
                     temp_output_file output_file_path w4 of
                (None, w5) \<Rightarrow> report_total w5
              | (Some e, w5) \<Rightarrow>
                  snd (os_remove ev temp_output_file
                         (print (SYMBOL_ERROR @ '' Unexpected error: '') w5)))
         | (False, w4) \<Rightarrow>
             report_total (print (SYMBOL_ERROR @ '' Error processing this video. Moving on...'') w4))"

section \<open>Discovery\<close>

text \<open>
  Modelled from the spec: \<open>natsorted\<close> belongs to the third-party natsort package,
  which is not part of the sources. The spec asks for natural (human) ordering of
  file names, with \<open>Episode 2.mkv\<close> before \<open>Episode 10.mkv\<close>: a name is cut into runs of
  digits and runs of other characters, a digit run counts as the number it spells, a
  key that would start with a number gets an empty text in front, and keys are compared
  position by position (text by character code, numbers by value, a proper prefix
  first). The sort is stable, as Python's is.
\<close>

datatype chunk = Txt string | Num nat

instantiation chunk :: linorder
begin

definition less_eq_chunk :: "chunk \<Rightarrow> chunk \<Rightarrow> bool" where
  "less_eq_chunk a b =
     (case a of
        Txt s \<Rightarrow> (case b of Txt t \<Rightarrow> s \<le> t | Num n \<Rightarrow> True)
      | Num m \<Rightarrow> (case b of Txt t \<Rightarrow> False | Num n \<Rightarrow> m \<le> n))"

definition less_chunk :: "chunk \<Rightarrow> chunk \<Rightarrow> bool" where
  "less_chunk a b = (a \<le> b \<and> \<not> b \<le> (a::chunk))"

instance
  by standard (auto simp: less_eq_chunk_def less_chunk_def split: chunk.splits)

end

definition is_digit :: "char \<Rightarrow> bool" where
  "is_digit c = (48 \<le> (of_char c :: nat) \<and> (of_char c :: nat) \<le> 57)"

definition parse_nat :: "string \<Rightarrow> nat" where
  "parse_nat r = foldl (\<lambda>a c. 10 * a + ((of_char c :: nat) - 48)) 0 r"

fun runs :: "string \<Rightarrow> (bool \<times> string) list" where
  "runs [] = []"
| "runs (c # cs) =
     (case runs cs of
        [] \<Rightarrow> [(is_digit c, [c])]
      | (d, r) # rest \<Rightarrow>
          if d = is_digit c then (d, c # r) # rest else (is_digit c, [c]) # (d, r) # rest)"

definition natsort_key :: "string \<Rightarrow> chunk list" where
  "natsort_key f =
     (let rs = runs f in
      (case rs of (True, _) # _ \<Rightarrow> [Txt []] | _ \<Rightarrow> [])
      @ map (\<lambda>(d, r). if d then Num (parse_nat r) else Txt r) rs)"

definition natsorted :: "string list \<Rightarrow> string list" where
  "natsorted fs = sort_key natsort_key fs"

text \<open>The list \<open>files\<close> of \<open>process_folder\<close>, from the directory listing.\<close>

definition wanted :: "string \<Rightarrow> bool" where
  "wanted f =
     (list_ex (\<lambda>ext. suffix ext f) video_formats \<and> \<not> list_ex (\<lambda>w. sublist w f) words_to_ignore)"

definition candidate_files :: "string list \<Rightarrow> string list" where
  "candidate_files listing = filter wanted (natsorted listing)"

text \<open>
  The loop of \<open>process_folder\<close> over \<open>enumerate(files, 1)\<close>, and the function from the
  listing on (the directory checks and the wait for a running engine come before it).
\<close>

fun process_files ::
  "env \<Rightarrow> string \<Rightarrow> string \<Rightarrow> string \<Rightarrow> bool \<Rightarrow> nat \<Rightarrow> nat \<Rightarrow> string list \<Rightarrow> world \<Rightarrow> world" where
  "process_files ev input_path output_path first_run create_subfolders total_files idx [] w = w"
| "process_files ev input_path output_path first_run create_subfolders total_files idx (file # rest) w =
     process_files ev input_path output_path first_run create_subfolders total_files (Suc idx) rest
       (process_file ev input_path output_path first_run create_subfolders total_files idx file w)"

definition process_folder ::
  "env \<Rightarrow> string list \<Rightarrow> string \<Rightarrow> string \<Rightarrow> string \<Rightarrow> bool \<Rightarrow> world \<Rightarrow> world" where
  "process_folder ev listing input_path output_path first_run create_subfolders w =
     (let files = candidate_files listing
      in process_files ev input_path output_path first_run create_subfolders (length files) 1 files w)"

section \<open>A sample folder\<close>

text \<open>
  Four files for the concrete runs below: \<open>Movie.mkv\<close> (HEVC video, English AC3 audio,
  an English SubRip subtitle and an untagged ASS subtitle), \<open>Clip.mkv\<close> (French audio
  only), \<open>Show.mkv\<close> (AV1 video reported in upper case, English audio) and \<open>Anime.mkv\<close>
  (AV1 video, Japanese audio). The probe tool answers with the streams of the kind asked
  for, the engine exits with status 0 and no file-system call raises; in \<open>locked_env\<close>
  removing \<open>Movie.mkv\<close> raises, as it does when another process holds the file.
\<close>

definition mk_stream :: "int \<Rightarrow> string \<Rightarrow> string \<Rightarrow> (string \<rightharpoonup> string) option \<Rightarrow> stream" where
  "mk_stream i ty name tg =
     \<lparr> index = Some i, codec_type = Some ty, codec_name = Some name, tags = tg \<rparr>"

definition lang :: "string \<Rightarrow> (string \<rightharpoonup> string) option" where
  "lang l = Some [''language'' \<mapsto> l]"

definition container :: "string \<Rightarrow> stream list" where
  "container f =
     (if f = ''in/Movie.mkv'' then
        [mk_stream 0 ''video'' ''hevc'' None, mk_stream 1 ''audio'' ''ac3'' (lang ''eng''),
         mk_stream 2 ''subtitle'' ''subrip'' (lang ''eng''), mk_stream 3 ''subtitle'' ''ass'' None]
      else if f = ''in/Clip.mkv'' then
        [mk_stream 0 ''video'' ''h264'' None, mk_stream 1 ''audio'' ''aac'' (lang ''fre'')]
      else if f = ''in/Show.mkv'' then
        [mk_stream 0 ''video'' ''AV1'' None, mk_stream 1 ''audio'' ''opus'' (lang ''eng'')]
      else
        [mk_stream 0 ''video'' ''av1'' None, mk_stream 1 ''audio'' ''opus'' (lang ''jpn'')])"

definition demo_probe :: "string \<Rightarrow> string option \<Rightarrow> exc + probe_doc" where
  "demo_probe f sel =
     Inr \<lparr> streams = Some
       (case sel of
          None \<Rightarrow> container f
        | Some k \<Rightarrow>
            filter (\<lambda>s. codec_type s = Some (if k = ''a'' then ''audio'' else ''subtitle''))
              (container f)) \<rparr>"

definition demo_env :: env where
  "demo_env =
     \<lparr> probe = demo_probe, engine = (\<lambda>cmd. None), os_fails = (\<lambda>opn. False),
       mktemp = (\<lambda>f. ''/tmp/tmpk3j2.mp4'') \<rparr>"

definition locked_env :: env where
  "locked_env = demo_env \<lparr> os_fails := (\<lambda>opn. opn = Remove ''in/Movie.mkv'') \<rparr>"

definition demo_world :: world where
  "demo_world =
     \<lparr> files = {''in/Movie.mkv'', ''in/Clip.mkv'', ''in/Show.mkv'', ''in/Anime.mkv''},
       logged = [], ops = [] \<rparr>"

section \<open>Properties of the command builder\<close>

lemma foldl_map_audio:
  "foldl map_audio cmd idxs =
     cmd @ concat (map (\<lambda>idx. [''-map'', ''0:'' @ idx, ''-metadata:s:a:0'', ''language=eng'']) idxs)"
  by (induction idxs arbitrary: cmd) (simp_all add: map_audio_def)

lemma build_ffmpeg_cmd_parts:
  "build_ffmpeg_cmd input_file temp_file mode video_codec audio_indices subs =
     (if mode = ''encode'' then encode_template input_file
      else remux_template input_file
           @ (if video_codec = Some ''hevc'' then [''-tag:v'', ''hvc1''] else []))
     @ concat (map (\<lambda>idx. [''-map'', ''0:'' @ idx, ''-metadata:s:a:0'', ''language=eng''])
                 audio_indices)
     @ (case subs of
          [] \<Rightarrow> []
        | sub # _ \<Rightarrow> [''-map'', ''0:'' @ sub_index sub, ''-c:s'', ''mov_text'',
                      ''-metadata:s:s:0'', ''language='' @ sub_language sub])
     @ [temp_file]"
  by (simp add: build_ffmpeg_cmd_def foldl_map_audio Let_def split: list.splits)

text \<open>
  Claim C7. Whatever the list of selected audio indices, the command is the command
  without audio and subtitles (less its output file), then for each index in order the
  four arguments \<open>-map 0:idx -metadata:s:a:0 language=eng\<close>, then the subtitle arguments
  and the output file. Every selected audio stream gets the same metadata key, the one
  of output audio position 0; no key is indexed by the stream's own output position.
\<close>

theorem C7_audio_mapping:
  "build_ffmpeg_cmd input_file temp_file mode video_codec audio_indices subs =
     butlast (build_ffmpeg_cmd input_file temp_file mode video_codec [] [])
     @ concat (map (\<lambda>idx. [''-map'', ''0:'' @ idx, ''-metadata:s:a:0'', ''language=eng''])
                 audio_indices)
     @ (case subs of
          [] \<Rightarrow> []
        | sub # _ \<Rightarrow> [''-map'', ''0:'' @ sub_index sub, ''-c:s'', ''mov_text'',
                      ''-metadata:s:s:0'', ''language='' @ sub_language sub])
     @ [temp_file]"
  by (simp add: build_ffmpeg_cmd_parts butlast_append)

theorem C7_audio_mapping_witness:
  "build_ffmpeg_cmd ''in/a.mkv'' ''/tmp/t.mp4'' ''remux'' (Some ''h264'') [''1'', ''2'', ''4''] [] =
     [''ffmpeg'', ''-i'', ''in/a.mkv'', ''-y'', ''-c:v'', ''copy'', ''-c:a'', ''copy'',
      ''-map'', ''0:v:0'', ''-map_metadata'', ''-1'', ''-movflags'', ''+faststart'',
      ''-loglevel'', ''quiet'',
      ''-map'', ''0:1'', ''-metadata:s:a:0'', ''language=eng'',
      ''-map'', ''0:2'', ''-metadata:s:a:0'', ''language=eng'',
      ''-map'', ''0:4'', ''-metadata:s:a:0'', ''language=eng'',
      ''/tmp/t.mp4'']"
  using C7_audio_mapping [of "''in/a.mkv''" "''/tmp/t.mp4''" "''remux''" "Some ''h264''"
      "[''1'', ''2'', ''4'']" "[]"]
  by (simp add: build_ffmpeg_cmd_def remux_template_def)

lemma audio_args_clean:
  "list_all (\<lambda>x. x \<in> {''libx265'', ''-x265-params'', ''-preset'', ''-crf'', ''aac'', ''-b:a'', ''-channel_layout''}
                \<longrightarrow> x = input_file \<or> x = temp_file)
     (concat (map (\<lambda>idx. [''-map'', ''0:'' @ idx, ''-metadata:s:a:0'', ''language=eng'']) a))"
  by (induction a) simp_all

lemma remux_clean:
  "list_all (\<lambda>x. x \<in> {''libx265'', ''-x265-params'', ''-preset'', ''-crf'', ''aac'', ''-b:a'', ''-channel_layout''}
                \<longrightarrow> x = input_file \<or> x = temp_file)
     (build_ffmpeg_cmd input_file temp_file ''remux'' video_codec audio_indices subs)"
proof -
  define P where "P = (\<lambda>x. x \<in> {''libx265'', ''-x265-params'', ''-preset'', ''-crf'', ''aac'', ''-b:a'', ''-channel_layout''}
                \<longrightarrow> x = input_file \<or> x = temp_file)"
  have fixed: "list_all P (remux_template input_file)"
    unfolding P_def remux_template_def by simp
  have tag: "list_all P (if video_codec = Some ''hevc'' then [''-tag:v'', ''hvc1''] else [])"
    unfolding P_def by simp
  have audio: "list_all P (concat (map (\<lambda>idx. [''-map'', ''0:'' @ idx, ''-metadata:s:a:0'', ''language=eng'']) audio_indices))"
    unfolding P_def by (rule audio_args_clean)
  have sub: "list_all P (case subs of
          [] \<Rightarrow> []
        | sub # _ \<Rightarrow> [''-map'', ''0:'' @ sub_index sub, ''-c:s'', ''mov_text'',
                      ''-metadata:s:s:0'', ''language='' @ sub_language sub])"
    unfolding P_def by (cases subs) simp_all
  have out: "list_all P [temp_file]"
    unfolding P_def by simp
  have "list_all P (build_ffmpeg_cmd input_file temp_file ''remux'' video_codec audio_indices subs)"
    unfolding build_ffmpeg_cmd_parts using fixed tag audio sub out by simp
  then show ?thesis unfolding P_def .
qed


lemma encode_prefix:
  "\<exists>rest. build_ffmpeg_cmd input_file temp_file ''encode'' video_codec audio_indices subs =
         [''ffmpeg'', ''-i'', input_file, ''-y'',
          ''-c:v'', ''libx265'', ''-x265-params'', ''log-level=0'', ''-preset'', ''fast'', ''-crf'', ''23'',
          ''-c:a'', ''aac'', ''-b:a'', ''192k'', ''-channel_layout'', ''5.1'',
          ''-map'', ''0:v:0'', ''-map_metadata'', ''-1'',
          ''-tag:v'', ''hvc1'', ''-movflags'', ''+faststart'', ''-loglevel'', ''quiet''] @ rest"
proof -
  have "build_ffmpeg_cmd input_file temp_file ''encode'' video_codec audio_indices subs =
     encode_template input_file @ (
      concat (map (\<lambda>idx. [''-map'', ''0:'' @ idx, ''-metadata:s:a:0'', ''language=eng''])
                 audio_indices)
     @ (case subs of
          [] \<Rightarrow> []
        | sub # _ \<Rightarrow> [''-map'', ''0:'' @ sub_index sub, ''-c:s'', ''mov_text'',
                      ''-metadata:s:s:0'', ''language='' @ sub_language sub])
     @ [temp_file])"
    unfolding build_ffmpeg_cmd_parts by simp
  then show ?thesis unfolding encode_template_def by blast
qed

lemma remux_prefix:
  "\<exists>rest. build_ffmpeg_cmd input_file temp_file ''remux'' video_codec audio_indices subs =
         [''ffmpeg'', ''-i'', input_file, ''-y'',
          ''-c:v'', ''copy'', ''-c:a'', ''copy'', ''-map'', ''0:v:0'', ''-map_metadata'', ''-1'',
          ''-movflags'', ''+faststart'', ''-loglevel'', ''quiet''] @ rest"
proof -
  have "build_ffmpeg_cmd input_file temp_file ''remux'' video_codec audio_indices subs =
     remux_template input_file @ ((if video_codec = Some ''hevc'' then [''-tag:v'', ''hvc1''] else [])
     @ concat (map (\<lambda>idx. [''-map'', ''0:'' @ idx, ''-metadata:s:a:0'', ''language=eng''])
                 audio_indices)
     @ (case subs of
          [] \<Rightarrow> []
        | sub # _ \<Rightarrow> [''-map'', ''0:'' @ sub_index sub, ''-c:s'', ''mov_text'',
                      ''-metadata:s:s:0'', ''language='' @ sub_language sub])
     @ [temp_file])"
    unfolding build_ffmpeg_cmd_parts by simp
  then show ?thesis unfolding remux_template_def by blast
qed

text \<open>
  Claim C5. In encode mode the command starts with the whole encode template, whatever
  the source codec: \<open>libx265\<close> at constant quality 23 with the \<open>fast\<close> preset, AAC
  audio at 192k in 5.1, \<open>-map_metadata -1\<close>, the \<open>hvc1\<close> tag and \<open>+faststart\<close>. In remux
  mode it starts with the remux template, which holds \<open>-c:v copy\<close> and \<open>-c:a copy\<close>, and
  no argument the builder itself writes is one of the video or audio encoder options
  (only the two paths given by the caller are not under the builder's control). The
  conversion of a selected subtitle to \<open>mov_text\<close> belongs to both modes.
\<close>

theorem C5_mode_templates:
  "(mode = ''encode'' \<longrightarrow>
      (\<exists>rest. build_ffmpeg_cmd input_file temp_file mode video_codec audio_indices subs =
         [''ffmpeg'', ''-i'', input_file, ''-y'',
          ''-c:v'', ''libx265'', ''-x265-params'', ''log-level=0'', ''-preset'', ''fast'', ''-crf'', ''23'',
          ''-c:a'', ''aac'', ''-b:a'', ''192k'', ''-channel_layout'', ''5.1'',
          ''-map'', ''0:v:0'', ''-map_metadata'', ''-1'',
          ''-tag:v'', ''hvc1'', ''-movflags'', ''+faststart'', ''-loglevel'', ''quiet''] @ rest))
   \<and> (mode = ''remux'' \<longrightarrow>
      (\<exists>rest. build_ffmpeg_cmd input_file temp_file mode video_codec audio_indices subs =
         [''ffmpeg'', ''-i'', input_file, ''-y'',
          ''-c:v'', ''copy'', ''-c:a'', ''copy'', ''-map'', ''0:v:0'', ''-map_metadata'', ''-1'',
          ''-movflags'', ''+faststart'', ''-loglevel'', ''quiet''] @ rest)
      \<and> (\<forall>x \<in> set (build_ffmpeg_cmd input_file temp_file mode video_codec audio_indices subs).
            x \<in> {''libx265'', ''-x265-params'', ''-preset'', ''-crf'', ''aac'', ''-b:a'', ''-channel_layout''}
            \<longrightarrow> x = input_file \<or> x = temp_file))"
  using encode_prefix [of input_file temp_file video_codec audio_indices subs]
    remux_prefix [of input_file temp_file video_codec audio_indices subs]
    remux_clean [of input_file temp_file video_codec audio_indices subs]
  unfolding list_all_iff by blast

theorem C5_mode_templates_witness:
  "build_ffmpeg_cmd ''in/Movie.mkv'' ''/tmp/t.mp4'' ''remux'' (Some ''hevc'') [''1'']
       [\<lparr>sub_index = ''2'', sub_codec = ''subrip'', sub_language = ''eng'', sub_title = []\<rparr>] =
     [''ffmpeg'', ''-i'', ''in/Movie.mkv'', ''-y'',
      ''-c:v'', ''copy'', ''-c:a'', ''copy'', ''-map'', ''0:v:0'', ''-map_metadata'', ''-1'',
      ''-movflags'', ''+faststart'', ''-loglevel'', ''quiet'', ''-tag:v'', ''hvc1'',
      ''-map'', ''0:1'', ''-metadata:s:a:0'', ''language=eng'',
      ''-map'', ''0:2'', ''-c:s'', ''mov_text'', ''-metadata:s:s:0'', ''language=eng'',
      ''/tmp/t.mp4'']
   \<and> ''libx265'' \<notin> set (build_ffmpeg_cmd ''in/Movie.mkv'' ''/tmp/t.mp4'' ''remux'' (Some ''hevc'') [''1'']
       [\<lparr>sub_index = ''2'', sub_codec = ''subrip'', sub_language = ''eng'', sub_title = []\<rparr>])
   \<and> take 28 (build_ffmpeg_cmd ''in/Movie.mkv'' ''/tmp/t.mp4'' ''encode'' (Some ''hevc'') [''1''] []) =
     [''ffmpeg'', ''-i'', ''in/Movie.mkv'', ''-y'',
      ''-c:v'', ''libx265'', ''-x265-params'', ''log-level=0'', ''-preset'', ''fast'', ''-crf'', ''23'',
      ''-c:a'', ''aac'', ''-b:a'', ''192k'', ''-channel_layout'', ''5.1'',
      ''-map'', ''0:v:0'', ''-map_metadata'', ''-1'',
      ''-tag:v'', ''hvc1'', ''-movflags'', ''+faststart'', ''-loglevel'', ''quiet'']"
  using C5_mode_templates [of "''remux''" "''in/Movie.mkv''" "''/tmp/t.mp4''" "Some ''hevc''" "[''1'']"
       "[\<lparr>sub_index = ''2'', sub_codec = ''subrip'', sub_language = ''eng'', sub_title = []\<rparr>]"]
  by (simp add: build_ffmpeg_cmd_def remux_template_def encode_template_def map_audio_def)

section \<open>Properties of track selection\<close>

lemma comprehension_Inr:
  "comprehension c f xs = Inr ys \<Longrightarrow> map Inr ys = map f (filter c xs)"
  by (induction xs arbitrary: ys) (auto split: if_splits sum.splits)

lemma comprehension_total:
  "list_all (\<lambda>x. c x \<longrightarrow> (\<exists>y. f x = Inr y)) xs \<Longrightarrow> \<exists>ys. comprehension c f xs = Inr ys"
  by (induction xs) (auto split: if_splits sum.splits)

lemma comprehension_find_None:
  "comprehension c f xs = Inr ys \<Longrightarrow> find c xs = None \<Longrightarrow> ys = []"
  by (induction xs arbitrary: ys) (auto split: if_splits sum.splits)

lemma comprehension_find_Some:
  "comprehension c f xs = Inr ys \<Longrightarrow> find c xs = Some x \<Longrightarrow> \<exists>y rest. f x = Inr y \<and> ys = y # rest"
  by (induction xs arbitrary: ys) (auto split: if_splits sum.splits)

lemma comprehension_mem:
  "comprehension c f xs = Inr ys \<Longrightarrow> x \<in> set xs \<Longrightarrow> c x \<Longrightarrow> \<exists>y. f x = Inr y \<and> y \<in> set ys"
  by (induction xs arbitrary: ys) (auto split: if_splits sum.splits)

lemma audio_cond_iff:
  "audio_cond s \<longleftrightarrow> tag_or s ''language'' ''und'' = ''eng'' \<or> tag_or s ''language'' ''und'' = ''und''"
  unfolding audio_cond_def by (simp del: list.inject)

lemma str_index_Inr: "str_index s = Inr y \<longleftrightarrow> (\<exists>i. index s = Some i \<and> y = str_int i)"
  by (auto simp: str_index_def split: option.splits)

lemma audio_indices_spec:
  assumes "get_english_audio_indices d = Inr xs"
  shows "xs = map (\<lambda>s. str_int (the (index s)))
                (filter (\<lambda>s. tag_or s ''language'' ''und'' = ''eng'' \<or> tag_or s ''language'' ''und'' = ''und'') (streams_of d))"
proof -
  have "comprehension c str_index ss = Inr ys \<Longrightarrow> ys = map (\<lambda>s. str_int (the (index s))) (filter c ss)" for c ss ys
    by (induction ss arbitrary: ys) (auto simp: str_index_def split: if_splits sum.splits option.splits)
  from this [of audio_cond "streams_of d" xs] assms
  have "xs = map (\<lambda>s. str_int (the (index s))) (filter audio_cond (streams_of d))"
    by (simp add: get_english_audio_indices_def)
  moreover have "filter audio_cond (streams_of d) = filter (\<lambda>s. tag_or s ''language'' ''und'' = ''eng'' \<or> tag_or s ''language'' ''und'' = ''und'') (streams_of d)"
    by (rule filter_cong) (simp_all add: audio_cond_iff)
  ultimately show ?thesis by simp
qed

lemma audio_indices_total:
  assumes "list_all (\<lambda>s. index s \<noteq> None) (streams_of d)"
  shows "\<exists>ys. get_english_audio_indices d = Inr ys"
  unfolding get_english_audio_indices_def
proof (rule comprehension_total)
  from assms show "list_all (\<lambda>x. audio_cond x \<longrightarrow> (\<exists>y. str_index x = Inr y)) (streams_of d)"
    by (rule list.pred_mono_strong) (auto simp: str_index_def)
qed

section \<open>Properties of the conversion runner and of the file operations\<close>

lemma run_engine_world:
  "files (snd (run_engine ev cmd m w)) = files w \<and> ops (snd (run_engine ev cmd m w)) = ops w @ [RunEngine cmd]"
  by (simp add: run_engine_def print_def did_def Let_def split: option.splits)

lemma select_world:
  "files (snd (select_and_run ev f t m a v s w)) = files w \<and>
   (ops (snd (select_and_run ev f t m a v s w)) = ops w \<or>
    (\<exists>cmd. ops (snd (select_and_run ev f t m a v s w)) = ops w @ [RunEngine cmd]))"
  by (simp add: select_and_run_def run_engine_world print_def Let_def split: sum.splits)

lemma try_world:
  "files (snd (convert_try ev f t m w)) = files w \<and>
   (ops (snd (convert_try ev f t m w)) = ops w \<or>
    (\<exists>cmd. ops (snd (convert_try ev f t m w)) = ops w @ [RunEngine cmd]))"
  by (simp add: convert_try_def select_world split: sum.splits)

lemma convert_world:
  "files (snd (convert_to_mp4 ev f t m w)) = files w \<and>
   (ops (snd (convert_to_mp4 ev f t m w)) = ops w \<or>
    (\<exists>cmd. ops (snd (convert_to_mp4 ev f t m w)) = ops w @ [RunEngine cmd]))"
proof -
  obtain r w1 where a: "convert_try ev f t m w = (r, w1)" by (cases "convert_try ev f t m w")
  with try_world [of ev f t m w]
  have w1: "files w1 = files w \<and> (ops w1 = ops w \<or> (\<exists>cmd. ops w1 = ops w @ [RunEngine cmd]))"
    by simp
  have "files (snd (convert_to_mp4 ev f t m w)) = files w1 \<and> ops (snd (convert_to_mp4 ev f t m w)) = ops w1"
    unfolding convert_to_mp4_def a by (cases r; simp add: print_def split: exc.splits)
  with w1 show ?thesis by simp
qed

lemma run_engine_fst: "fst (run_engine ev cmd m w) = fst (run_engine ev cmd m w')"
  by (simp add: run_engine_def Let_def split: option.splits)

lemma select_fst: "fst (select_and_run ev f t m a v s w) = fst (select_and_run ev f t m a v s w')"
proof (cases "get_english_audio_indices a")
  case (Inl e)
  then show ?thesis by (simp add: select_and_run_def)
next
  case (Inr ai)
  show ?thesis
  proof (cases "get_subtitle_streams s")
    case (Inl e)
    with Inr show ?thesis by (simp add: select_and_run_def)
  next
    case sub: (Inr vs)
    show ?thesis
      using Inr sub run_engine_fst [of ev "build_ffmpeg_cmd f t m (get_video_codec v) ai vs" m w w']
      by (simp add: select_and_run_def Let_def)
  qed
qed

lemma try_fst: "fst (convert_try ev f t m w) = fst (convert_try ev f t m w')"
proof (cases "probe ev f (Some ''a'')")
  case (Inl e)
  then show ?thesis by (simp add: convert_try_def)
next
  case a: (Inr da)
  show ?thesis
  proof (cases "probe ev f None")
    case (Inl e)
    with a show ?thesis by (simp add: convert_try_def)
  next
    case v: (Inr dv)
    show ?thesis
    proof (cases "probe ev f (Some ''s'')")
      case (Inl e)
      with a v show ?thesis by (simp add: convert_try_def)
    next
      case s: (Inr ds)
      show ?thesis
        using a v s select_fst [of ev f t m da dv ds w w'] by (simp add: convert_try_def)
    qed
  qed
qed

lemma convert_fst: "fst (convert_to_mp4 ev f t m w) = fst (convert_to_mp4 ev f t m w')"
proof -
  obtain r w1 where a: "convert_try ev f t m w = (r, w1)" by (cases "convert_try ev f t m w")
  obtain r' w2 where b: "convert_try ev f t m w' = (r', w2)" by (cases "convert_try ev f t m w'")
  from try_fst [of ev f t m w w'] a b have r: "r' = r" by simp
  have "fst (convert_to_mp4 ev f t m w) = (case r of Inr x \<Rightarrow> x | Inl e \<Rightarrow> False)"
    unfolding convert_to_mp4_def a by (cases r; simp split: exc.splits)
  moreover have "fst (convert_to_mp4 ev f t m w') = (case r of Inr x \<Rightarrow> x | Inl e \<Rightarrow> False)"
    unfolding convert_to_mp4_def b r by (cases r; simp split: exc.splits)
  ultimately show ?thesis by simp
qed

lemma finalize_result:
  assumes "inp \<in> files w" "tmp \<in> files w" "tmp \<noteq> inp"
  shows "\<exists>tr. ops (snd (finalize ev cs dir inp tmp dst w)) = ops w @ tr \<and>
     (case fst (finalize ev cs dir inp tmp dst w) of
        None \<Rightarrow> (\<exists>pre. tr = pre @ [Move tmp dst, Remove inp]) \<and> inp \<notin> files (snd (finalize ev cs dir inp tmp dst w))
               \<and> \<not> os_fails ev (Remove inp) \<and> Remove inp \<notin> set (butlast tr)
      | Some e \<Rightarrow> Remove inp \<notin> set tr \<and> inp \<in> files (snd (finalize ev cs dir inp tmp dst w))
               \<and> (Move tmp dst \<in> set tr \<longrightarrow> os_fails ev (Remove inp)))"
  using assms
  by (auto simp: finalize_def then_do_def os_makedirs_def os_getsize_def shutil_move_def os_remove_def print_def did_def)

lemma convert_no_audio:
  assumes "probe ev f (Some ''a'') = Inr d" "probe ev f None = Inr v" "probe ev f (Some ''s'') = Inr sd"
    and "get_english_audio_indices d = Inr []" "get_subtitle_streams sd = Inr subs"
  shows "convert_to_mp4 ev f t m w =
           (False, print (SYMBOL_ERROR @ '' No English audio found. Skipping.'') w)"
  using assms by (simp add: convert_to_mp4_def convert_try_def select_and_run_def)

lemma convert_av1:
  assumes "probe ev f (Some ''a'') = Inr d" "probe ev f None = Inr v" "probe ev f (Some ''s'') = Inr sd"
    and "get_english_audio_indices d = Inr a" "get_subtitle_streams sd = Inr subs" "a \<noteq> []"
    and "get_video_codec v = Some ''av1''"
  shows "convert_to_mp4 ev f t ''remux'' w =
           (False, print (SYMBOL_ERROR @ '' AV1 codec detected. Please use encode mode.'') w)"
  using assms by (simp add: convert_to_mp4_def convert_try_def select_and_run_def)

lemma select_av1_skipped:
  assumes "get_video_codec v = Some ''av1''"
  shows "fst (select_and_run ev f t ''remux'' a v s w) \<noteq> Inr True
         \<and> ops (snd (select_and_run ev f t ''remux'' a v s w)) = ops w"
  using assms by (simp add: select_and_run_def print_def Let_def split: sum.splits)


lemma convert_av1_skipped:
  assumes "probe ev f None = Inr v" "get_video_codec v = Some ''av1''"
  shows "fst (convert_to_mp4 ev f t ''remux'' w) = False
         \<and> ops (snd (convert_to_mp4 ev f t ''remux'' w)) = ops w"
proof -
  obtain r w1 where a: "convert_try ev f t ''remux'' w = (r, w1)"
    by (cases "convert_try ev f t ''remux'' w")
  have "fst (convert_try ev f t ''remux'' w) \<noteq> Inr True
        \<and> ops (snd (convert_try ev f t ''remux'' w)) = ops w"
    using assms(1) select_av1_skipped [OF assms(2), of ev f t _ _ w]
    by (simp add: convert_try_def split: sum.splits)
  with a have "r \<noteq> Inr True \<and> ops w1 = ops w" by simp
  then show ?thesis

    unfolding convert_to_mp4_def a by (cases r) (auto simp: print_def split: exc.splits)
qed


lemma run_engine_log:
  "\<exists>new. logged (snd (run_engine ev cmd m w)) = logged w @ new
     \<and> SYMBOL_ERROR @ '' AV1 codec detected. Please use encode mode.'' \<notin> set new"
  by (simp add: run_engine_def print_def did_def Let_def SYMBOL_ERROR_def SYMBOL_INFO_def
      SYMBOL_SUCCESS_def split: option.splits)

lemma select_log:
  "\<exists>new. logged (snd (select_and_run ev f t m a v s w)) = logged w @ new
     \<and> (SYMBOL_ERROR @ '' AV1 codec detected. Please use encode mode.'' \<in> set new
          \<longrightarrow> m = ''remux'' \<and> get_video_codec v = Some ''av1'')"
proof (cases "get_english_audio_indices a")
  case (Inl e)
  then show ?thesis by (simp add: select_and_run_def)
next
  case ai: (Inr xs)
  show ?thesis
  proof (cases "get_subtitle_streams s")
    case (Inl e)
    with ai show ?thesis by (simp add: select_and_run_def)
  next
    case (Inr vs)
    show ?thesis
    proof (cases "xs = []")
      case True
      with ai Inr show ?thesis
        by (simp add: select_and_run_def print_def SYMBOL_ERROR_def)
    next
      case False
      show ?thesis
      proof (cases "m = ''remux'' \<and> get_video_codec v = Some ''av1''")
        case True
        with ai Inr False show ?thesis
          by (simp add: select_and_run_def print_def)
      next
        case no: False
        with ai Inr False
        have "select_and_run ev f t m a v s w =
                run_engine ev (build_ffmpeg_cmd f t m (get_video_codec v) xs vs) m w"
          by (cases "m = ''remux''") (simp_all add: select_and_run_def Let_def)

        with run_engine_log [of ev "build_ffmpeg_cmd f t m (get_video_codec v) xs vs" m w]
        show ?thesis by auto
      qed
    qed
  qed
qed

lemma try_log:
  "\<exists>new. logged (snd (convert_try ev f t m w)) = logged w @ new
     \<and> (SYMBOL_ERROR @ '' AV1 codec detected. Please use encode mode.'' \<in> set new
          \<longrightarrow> m = ''remux'' \<and> (\<exists>v. probe ev f None = Inr v \<and> get_video_codec v = Some ''av1''))"
proof (cases "probe ev f (Some ''a'')")
  case (Inl e)
  then show ?thesis by (simp add: convert_try_def)
next
  case a: (Inr da)
  show ?thesis
  proof (cases "probe ev f None")
    case (Inl e)
    with a show ?thesis by (simp add: convert_try_def)
  next
    case v: (Inr dv)
    show ?thesis
    proof (cases "probe ev f (Some ''s'')")
      case (Inl e)
      with a v show ?thesis by (simp add: convert_try_def)
    next
      case s: (Inr ds)
      with a v have "convert_try ev f t m w = select_and_run ev f t m da dv ds w"
        by (simp add: convert_try_def)
      with select_log [of ev f t m da dv ds w] v show ?thesis by auto
    qed
  qed
qed

lemma convert_log:
  "\<exists>new. logged (snd (convert_to_mp4 ev f t m w)) = logged w @ new
     \<and> (SYMBOL_ERROR @ '' AV1 codec detected. Please use encode mode.'' \<in> set new
          \<longrightarrow> m = ''remux'' \<and> (\<exists>v. probe ev f None = Inr v \<and> get_video_codec v = Some ''av1''))"
proof -
  obtain r w1 where a: "convert_try ev f t m w = (r, w1)" by (cases "convert_try ev f t m w")
  from try_log [of ev f t m w] a obtain new where
    new: "logged w1 = logged w @ new"
      "SYMBOL_ERROR @ '' AV1 codec detected. Please use encode mode.'' \<in> set new
          \<longrightarrow> m = ''remux'' \<and> (\<exists>v. probe ev f None = Inr v \<and> get_video_codec v = Some ''av1'')"
    by auto
  have "logged (snd (convert_to_mp4 ev f t m w)) = logged w1
        \<or> logged (snd (convert_to_mp4 ev f t m w)) = logged w1 @ [SYMBOL_ERROR @ '' FFmpeg error: '']
        \<or> logged (snd (convert_to_mp4 ev f t m w)) = logged w1 @ [SYMBOL_ERROR @ '' Unexpected error: '']"
    unfolding convert_to_mp4_def a by (cases r) (simp_all add: print_def split: exc.splits)
  then consider
      "logged (snd (convert_to_mp4 ev f t m w)) = logged w @ new"
    | "logged (snd (convert_to_mp4 ev f t m w)) = logged w @ (new @ [SYMBOL_ERROR @ '' FFmpeg error: ''])"
    | "logged (snd (convert_to_mp4 ev f t m w)) = logged w @ (new @ [SYMBOL_ERROR @ '' Unexpected error: ''])"
    using new(1) by auto
  then show ?thesis
  proof cases
    case 1
    with new(2) show ?thesis by blast
  next
    case 2
    moreover have "SYMBOL_ERROR @ '' AV1 codec detected. Please use encode mode.'' \<noteq> SYMBOL_ERROR @ '' FFmpeg error: ''"
      by simp
    ultimately show ?thesis using new(2)
      by (intro exI [of _ "new @ [SYMBOL_ERROR @ '' FFmpeg error: '']"]) auto
  next
    case 3
    moreover have "SYMBOL_ERROR @ '' AV1 codec detected. Please use encode mode.'' \<noteq> SYMBOL_ERROR @ '' Unexpected error: ''"
      by simp
    ultimately show ?thesis using new(2)
      by (intro exI [of _ "new @ [SYMBOL_ERROR @ '' Unexpected error: '']"]) auto
  qed
qed

section \<open>Properties of one turn of the batch loop\<close>

lemma process_file_failed:
  assumes "\<not> fst (convert_to_mp4 ev (path_join input_path file) (mktemp ev file) first_run w0)"
  shows "files (process_file ev input_path output_path first_run create_subfolders total_files idx file w)
           = insert (mktemp ev file) (files w)"
    and "\<exists>tr. ops (process_file ev input_path output_path first_run create_subfolders total_files idx file w)
           = ops w @ Create (mktemp ev file) # tr
         \<and> (tr = [] \<or> (\<exists>cmd. tr = [RunEngine cmd]))"
proof -
  define w3 where "w3 = print (SYMBOL_INFO @ '' Processing: '' @ file)
     (print (SYMBOL_INFO @ SYMBOL_INFO @ '' File '' @ str_int (int idx) @ ''/'' @ str_int (int total_files))
        (did (Create (mktemp ev file)) (w\<lparr>files := insert (mktemp ev file) (files w)\<rparr>)))"
  obtain b w4 where c: "convert_to_mp4 ev (path_join input_path file) (mktemp ev file) first_run w3 = (b, w4)"
    by (cases "convert_to_mp4 ev (path_join input_path file) (mktemp ev file) first_run w3")
  from assms convert_fst [of ev "path_join input_path file" "mktemp ev file" first_run w0 w3] c
  have b: "b = False" by simp
  have pf: "process_file ev input_path output_path first_run create_subfolders total_files idx file w
      = report_total (print (SYMBOL_ERROR @ '' Error processing this video. Moving on...'') w4)"
    unfolding process_file_def Let_def w3_def [symmetric] c b by simp
  from convert_world [of ev "path_join input_path file" "mktemp ev file" first_run w3] c
  have w4: "files w4 = files w3"
    "ops w4 = ops w3 \<or> (\<exists>cmd. ops w4 = ops w3 @ [RunEngine cmd])" by simp_all
  have w3: "files w3 = insert (mktemp ev file) (files w)" "ops w3 = ops w @ [Create (mktemp ev file)]"
    by (simp_all add: w3_def print_def did_def)
  show "files (process_file ev input_path output_path first_run create_subfolders total_files idx file w)
           = insert (mktemp ev file) (files w)"
    using w3 w4 by (simp add: pf report_total_def print_def)
  show "\<exists>tr. ops (process_file ev input_path output_path first_run create_subfolders total_files idx file w)
           = ops w @ Create (mktemp ev file) # tr
         \<and> (tr = [] \<or> (\<exists>cmd. tr = [RunEngine cmd]))"
    using w3 w4 by (auto simp: pf report_total_def print_def)
qed


lemma process_file_converted:
  assumes ok: "fst (convert_to_mp4 ev (path_join input_path file) (mktemp ev file) first_run w0)"
    and inp: "path_join input_path file \<in> files w"
    and fresh: "mktemp ev file \<noteq> path_join input_path file"
  shows "\<exists>tr. ops (process_file ev input_path output_path first_run create_subfolders total_files idx file w)
           = ops w @ tr
     \<and> (path_join input_path file
           \<notin> files (process_file ev input_path output_path first_run create_subfolders total_files idx file w)
         \<longleftrightarrow> Move (mktemp ev file) (output_file_path_of output_path create_subfolders file) \<in> set tr
             \<and> \<not> os_fails ev (Remove (path_join input_path file)))
     \<and> (Remove (path_join input_path file) \<in> set tr \<longrightarrow>
           (\<exists>pre. tr = pre @ [Move (mktemp ev file) (output_file_path_of output_path create_subfolders file),
                              Remove (path_join input_path file)]
                  \<and> Remove (path_join input_path file) \<notin> set pre))"
proof -
  define i where "i = path_join input_path file"
  define t where "t = mktemp ev file"
  define dst where "dst = output_file_path_of output_path create_subfolders file"
  define dir where "dir = output_file_dir_of output_path file"
  define w3 where "w3 = print (SYMBOL_INFO @ '' Processing: '' @ file)
     (print (SYMBOL_INFO @ SYMBOL_INFO @ '' File '' @ str_int (int idx) @ ''/'' @ str_int (int total_files))
        (did (Create t) (w\<lparr>files := insert t (files w)\<rparr>)))"
  obtain b w4 where c: "convert_to_mp4 ev i t first_run w3 = (b, w4)"
    by (cases "convert_to_mp4 ev i t first_run w3")
  from ok convert_fst [of ev i t first_run w0 w3] c
  have b: "b = True" by (simp add: i_def t_def)
  obtain r w5 where f: "finalize ev create_subfolders dir i t dst w4 = (r, w5)"
    by (cases "finalize ev create_subfolders dir i t dst w4")
  have pf: "process_file ev input_path output_path first_run create_subfolders total_files idx file w
      = (case r of None \<Rightarrow> report_total w5
         | Some e \<Rightarrow> snd (os_remove ev t (print (SYMBOL_ERROR @ '' Unexpected error: '') w5)))"
    unfolding process_file_def Let_def i_def [symmetric] t_def [symmetric] dst_def [symmetric]
      dir_def [symmetric] w3_def [symmetric] c b
    by (simp add: f)
  have w3: "files w3 = insert t (files w)" "ops w3 = ops w @ [Create t]"
    by (simp_all add: w3_def print_def did_def)
  from convert_world [of ev i t first_run w3] c
  have w4: "files w4 = files w3"
    "ops w4 = ops w3 \<or> (\<exists>cmd. ops w4 = ops w3 @ [RunEngine cmd])" by simp_all
  then obtain tre where tre: "ops w4 = ops w @ Create t # tre" "tre = [] \<or> (\<exists>cmd. tre = [RunEngine cmd])"
    using w3 by auto
  have in4: "i \<in> files w4" "t \<in> files w4" "t \<noteq> i"
    using w3 w4 inp fresh by (simp_all add: i_def t_def)
  have fr: "fst (finalize ev create_subfolders dir i t dst w4) = r"
    "snd (finalize ev create_subfolders dir i t dst w4) = w5" using f by simp_all
  from finalize_result [OF in4, of ev create_subfolders dir dst, unfolded fr] obtain trf where

    trf: "ops w5 = ops w4 @ trf"
      and res: "case r of
          None \<Rightarrow> (\<exists>pre. trf = pre @ [Move t dst, Remove i]) \<and> i \<notin> files w5
                   \<and> \<not> os_fails ev (Remove i) \<and> Remove i \<notin> set (butlast trf)
        | Some e \<Rightarrow> Remove i \<notin> set trf \<and> i \<in> files w5
                   \<and> (Move t dst \<in> set trf \<longrightarrow> os_fails ev (Remove i))"
    by blast

  have notin: "Remove i \<notin> set (Create t # tre)" "Move t dst \<notin> set (Create t # tre)"
    using tre(2) by auto
  show ?thesis
    unfolding i_def [symmetric] t_def [symmetric] dst_def [symmetric]
  proof (cases r)
    case None
    with res obtain pre where pre: "trf = pre @ [Move t dst, Remove i]"
      and gone: "i \<notin> files w5" and nf: "\<not> os_fails ev (Remove i)"
      and once: "Remove i \<notin> set (butlast trf)" by auto
    from once pre have p: "Remove i \<notin> set pre" by (simp add: butlast_append)
    have o: "ops (process_file ev input_path output_path first_run create_subfolders total_files idx file w)
        = ops w @ ((Create t # tre @ pre) @ [Move t dst, Remove i])"
      using None trf tre(1) pre by (simp add: pf report_total_def print_def)
    have fl: "i \<notin> files (process_file ev input_path output_path first_run create_subfolders total_files idx file w)"
      using None gone by (simp add: pf report_total_def print_def)
    show "\<exists>tr. ops (process_file ev input_path output_path first_run create_subfolders total_files idx file w)
           = ops w @ tr
       \<and> (i \<notin> files (process_file ev input_path output_path first_run create_subfolders total_files idx file w)
           \<longleftrightarrow> Move t dst \<in> set tr \<and> \<not> os_fails ev (Remove i))
       \<and> (Remove i \<in> set tr \<longrightarrow> (\<exists>pre. tr = pre @ [Move t dst, Remove i] \<and> Remove i \<notin> set pre))"
    proof (intro exI [of _ "(Create t # tre @ pre) @ [Move t dst, Remove i]"] conjI)
      show "ops (process_file ev input_path output_path first_run create_subfolders total_files idx file w)
        = ops w @ ((Create t # tre @ pre) @ [Move t dst, Remove i])" by (rule o)
      show "i \<notin> files (process_file ev input_path output_path first_run create_subfolders total_files idx file w)
           \<longleftrightarrow> Move t dst \<in> set ((Create t # tre @ pre) @ [Move t dst, Remove i]) \<and> \<not> os_fails ev (Remove i)"
        using fl nf by simp
      show "Remove i \<in> set ((Create t # tre @ pre) @ [Move t dst, Remove i]) \<longrightarrow>
          (\<exists>p. (Create t # tre @ pre) @ [Move t dst, Remove i] = p @ [Move t dst, Remove i] \<and> Remove i \<notin> set p)"
        using p notin(1) by (intro impI exI [of _ "Create t # tre @ pre"]) auto
    qed
  next
    case (Some e)
    with res have keep: "Remove i \<notin> set trf" "i \<in> files w5"
      and mv: "Move t dst \<in> set trf \<longrightarrow> os_fails ev (Remove i)" by auto
    define w6 where "w6 = print (SYMBOL_ERROR @ '' Unexpected error: '') w5"
    have w6: "files w6 = files w5" "ops w6 = ops w5" by (simp_all add: w6_def print_def)
    have rm: "(ops (snd (os_remove ev t w6)) = ops w6 \<or> ops (snd (os_remove ev t w6)) = ops w6 @ [Remove t])
        \<and> i \<in> files (snd (os_remove ev t w6))"
      using keep(2) w6 in4(3) by (simp add: os_remove_def did_def)
    then obtain trc where trc: "ops (snd (os_remove ev t w6)) = ops w6 @ trc" "trc = [] \<or> trc = [Remove t]"
      by auto
    have o: "ops (process_file ev input_path output_path first_run create_subfolders total_files idx file w)
        = ops w @ (Create t # tre @ trf @ trc)"
      using Some trc(1) w6 trf tre(1) by (simp add: pf w6_def)
    have fl: "i \<in> files (process_file ev input_path output_path first_run create_subfolders total_files idx file w)"
      using Some rm by (simp add: pf w6_def)
    have nr: "Remove i \<notin> set (Create t # tre @ trf @ trc)"
      using keep(1) notin(1) trc(2) in4(3) by auto
    have nm: "Move t dst \<in> set (Create t # tre @ trf @ trc) \<longrightarrow> os_fails ev (Remove i)"
      using mv notin(2) trc(2) by auto
    show "\<exists>tr. ops (process_file ev input_path output_path first_run create_subfolders total_files idx file w)
           = ops w @ tr
       \<and> (i \<notin> files (process_file ev input_path output_path first_run create_subfolders total_files idx file w)
           \<longleftrightarrow> Move t dst \<in> set tr \<and> \<not> os_fails ev (Remove i))
       \<and> (Remove i \<in> set tr \<longrightarrow> (\<exists>pre. tr = pre @ [Move t dst, Remove i] \<and> Remove i \<notin> set pre))"
      using o fl nr nm by (intro exI [of _ "Create t # tre @ trf @ trc"]) blast
  qed
qed

text \<open>
  Claim C1, as the code has it. In one turn of the loop, for an input file that exists
  and a temporary file with another name: the input file is gone afterwards exactly
  when the move of the temporary file to the destination took effect and the removal
  of the input did not raise; a removal of the input file is always the last operation
  of the turn and comes directly after that move, never before it; and after a
  conversion that failed or was skipped the input file is still there and nothing was
  moved.
\<close>

theorem C1_delete_only_after_move:
  assumes "path_join input_path file \<in> files w"
    and "mktemp ev file \<noteq> path_join input_path file"
  shows "\<exists>tr. ops (process_file ev input_path output_path first_run create_subfolders total_files idx file w)
           = ops w @ tr
     \<and> (path_join input_path file
           \<notin> files (process_file ev input_path output_path first_run create_subfolders total_files idx file w)
         \<longleftrightarrow> Move (mktemp ev file) (output_file_path_of output_path create_subfolders file) \<in> set tr
             \<and> \<not> os_fails ev (Remove (path_join input_path file)))
     \<and> (Remove (path_join input_path file) \<in> set tr \<longrightarrow>
           (\<exists>pre. tr = pre @ [Move (mktemp ev file) (output_file_path_of output_path create_subfolders file),
                              Remove (path_join input_path file)]
                  \<and> Remove (path_join input_path file) \<notin> set pre))
     \<and> (\<not> fst (convert_to_mp4 ev (path_join input_path file) (mktemp ev file) first_run w) \<longrightarrow>
           path_join input_path file
             \<in> files (process_file ev input_path output_path first_run create_subfolders total_files idx file w)
           \<and> Move (mktemp ev file) (output_file_path_of output_path create_subfolders file) \<notin> set tr)"
proof (cases "fst (convert_to_mp4 ev (path_join input_path file) (mktemp ev file) first_run w)")
  case True
  from process_file_converted [OF True assms, of output_path create_subfolders total_files idx]
  show ?thesis using True by blast
next
  case False
  from process_file_failed [OF False, of output_path create_subfolders total_files idx w]
  obtain tr where fl: "files (process_file ev input_path output_path first_run create_subfolders total_files idx file w)
           = insert (mktemp ev file) (files w)"
    and o: "ops (process_file ev input_path output_path first_run create_subfolders total_files idx file w)
           = ops w @ Create (mktemp ev file) # tr"
    and tr: "tr = [] \<or> (\<exists>cmd. tr = [RunEngine cmd])" by blast
  have a: "path_join input_path file
      \<in> files (process_file ev input_path output_path first_run create_subfolders total_files idx file w)"
    using fl assms(1) by simp
  have b: "Move (mktemp ev file) (output_file_path_of output_path create_subfolders file)
      \<notin> set (Create (mktemp ev file) # tr)"
    "Remove (path_join input_path file) \<notin> set (Create (mktemp ev file) # tr)"
    using tr by auto
  show ?thesis
    using o a b by (intro exI [of _ "Create (mktemp ev file) # tr"]) blast
qed

text \<open>
  The equivalence of claim C1 without the proviso fails: when removing \<open>Movie.mkv\<close>
  raises, the converted file has been moved to \<open>out/Movie.mp4\<close> and the input file
  is still there.
\<close>

theorem C1_counterexample:
  "\<not> (''in/Movie.mkv'' \<notin> files (process_file locked_env ''in'' ''out'' ''remux'' False 1 1 ''Movie.mkv'' demo_world)
      \<longleftrightarrow> Move ''/tmp/tmpk3j2.mp4'' ''out/Movie.mp4''
            \<in> set (ops (process_file locked_env ''in'' ''out'' ''remux'' False 1 1 ''Movie.mkv'' demo_world)))"
  by code_simp

text \<open>A successful turn on \<open>Movie.mkv\<close>: moved, then removed.\<close>

theorem C1_delete_only_after_move_witness:
  "path_join ''in'' ''Movie.mkv'' \<in> files demo_world
   \<and> mktemp demo_env ''Movie.mkv'' \<noteq> path_join ''in'' ''Movie.mkv''
   \<and> (\<exists>tr. ops (process_file demo_env ''in'' ''out'' ''remux'' False 1 1 ''Movie.mkv'' demo_world)
           = ops demo_world @ tr
     \<and> (path_join ''in'' ''Movie.mkv''
           \<notin> files (process_file demo_env ''in'' ''out'' ''remux'' False 1 1 ''Movie.mkv'' demo_world)
         \<longleftrightarrow> Move (mktemp demo_env ''Movie.mkv'') (output_file_path_of ''out'' False ''Movie.mkv'') \<in> set tr
             \<and> \<not> os_fails demo_env (Remove (path_join ''in'' ''Movie.mkv'')))
     \<and> (Remove (path_join ''in'' ''Movie.mkv'') \<in> set tr \<longrightarrow>
           (\<exists>pre. tr = pre @ [Move (mktemp demo_env ''Movie.mkv'') (output_file_path_of ''out'' False ''Movie.mkv''),
                              Remove (path_join ''in'' ''Movie.mkv'')]
                  \<and> Remove (path_join ''in'' ''Movie.mkv'') \<notin> set pre))
     \<and> (\<not> fst (convert_to_mp4 demo_env (path_join ''in'' ''Movie.mkv'') (mktemp demo_env ''Movie.mkv'') ''remux'' demo_world) \<longrightarrow>
           path_join ''in'' ''Movie.mkv''
             \<in> files (process_file demo_env ''in'' ''out'' ''remux'' False 1 1 ''Movie.mkv'' demo_world)
           \<and> Move (mktemp demo_env ''Movie.mkv'') (output_file_path_of ''out'' False ''Movie.mkv'') \<notin> set tr))
   \<and> ''in/Movie.mkv'' \<notin> files (process_file demo_env ''in'' ''out'' ''remux'' False 1 1 ''Movie.mkv'' demo_world)
   \<and> ''out/Movie.mp4'' \<in> files (process_file demo_env ''in'' ''out'' ''remux'' False 1 1 ''Movie.mkv'' demo_world)
   \<and> drop 2 (ops (process_file demo_env ''in'' ''out'' ''remux'' False 1 1 ''Movie.mkv'' demo_world))
       = [Move ''/tmp/tmpk3j2.mp4'' ''out/Movie.mp4'', Remove ''in/Movie.mkv'']"
proof -
  have h1: "path_join ''in'' ''Movie.mkv'' \<in> files demo_world" by code_simp
  have h2: "mktemp demo_env ''Movie.mkv'' \<noteq> path_join ''in'' ''Movie.mkv''" by code_simp
  have c1: "''in/Movie.mkv'' \<notin> files (process_file demo_env ''in'' ''out'' ''remux'' False 1 1 ''Movie.mkv'' demo_world)"
    by code_simp
  have c2: "''out/Movie.mp4'' \<in> files (process_file demo_env ''in'' ''out'' ''remux'' False 1 1 ''Movie.mkv'' demo_world)"
    by code_simp
  have c3: "drop 2 (ops (process_file demo_env ''in'' ''out'' ''remux'' False 1 1 ''Movie.mkv'' demo_world))
       = [Move ''/tmp/tmpk3j2.mp4'' ''out/Movie.mp4'', Remove ''in/Movie.mkv'']"
    by code_simp
  from C1_delete_only_after_move [OF h1 h2, of "''out''" "''remux''" False 1 1] h1 h2 c1 c2 c3
  show ?thesis by blast
qed

text \<open>
  Claim C2 on \<open>Clip.mkv\<close>, whose only audio stream is French. The conversion fails.
  The input file still exists, as the claim says; but the temporary file, which did
  not exist before the turn, exists after it: the turn creates it and no later
  operation removes it. The only removal of the temporary file is in the handler for
  exceptions of the finalize block, which a conversion that returns \<open>False\<close> never
  reaches.
\<close>

theorem C2_temp_file_left_behind:
  "fst (convert_to_mp4 demo_env ''in/Clip.mkv'' ''/tmp/tmpk3j2.mp4'' ''remux'' demo_world) = False
   \<and> ''in/Clip.mkv'' \<in> files (process_file demo_env ''in'' ''out'' ''remux'' False 1 1 ''Clip.mkv'' demo_world)
   \<and> ''/tmp/tmpk3j2.mp4'' \<notin> files demo_world
   \<and> ''/tmp/tmpk3j2.mp4'' \<in> files (process_file demo_env ''in'' ''out'' ''remux'' False 1 1 ''Clip.mkv'' demo_world)
   \<and> ops (process_file demo_env ''in'' ''out'' ''remux'' False 1 1 ''Clip.mkv'' demo_world)
       = [Create ''/tmp/tmpk3j2.mp4'']"
  by code_simp

section \<open>Selection claims\<close>

text \<open>
  Claim C3. When audio selection returns, its list is the list of the decimal indices
  of exactly the streams whose language tag (\<open>und\<close> when there is none) is \<open>eng\<close> or
  \<open>und\<close>, in probe order; it does return whenever every stream carries an index. When
  the three probes succeed, the audio list is empty and subtitle selection returns, the
  conversion returns \<open>False\<close> with the line \<open>No English audio found. Skipping.\<close>, and
  the turn of the loop does nothing but create its temporary file: no engine run, no
  move, no removal.
\<close>

theorem C3_audio_selection:
  "(get_english_audio_indices d = Inr xs \<longrightarrow>
      xs = map (\<lambda>s. str_int (the (index s)))
             (filter (\<lambda>s. tag_or s ''language'' ''und'' = ''eng'' \<or> tag_or s ''language'' ''und'' = ''und'')
                (streams_of d)))
   \<and> (list_all (\<lambda>s. index s \<noteq> None) (streams_of d) \<longrightarrow> (\<exists>ys. get_english_audio_indices d = Inr ys))
   \<and> (probe ev (path_join input_path file) (Some ''a'') = Inr d
        \<and> probe ev (path_join input_path file) None = Inr v
        \<and> probe ev (path_join input_path file) (Some ''s'') = Inr sd
        \<and> get_english_audio_indices d = Inr [] \<and> get_subtitle_streams sd = Inr subs \<longrightarrow>
      convert_to_mp4 ev (path_join input_path file) t m w
        = (False, print (SYMBOL_ERROR @ '' No English audio found. Skipping.'') w)
      \<and> files (process_file ev input_path output_path m create_subfolders total_files idx file w)
          = insert (mktemp ev file) (files w)
      \<and> ops (process_file ev input_path output_path m create_subfolders total_files idx file w)
          = ops w @ [Create (mktemp ev file)])"
proof (intro conjI impI)
  assume "get_english_audio_indices d = Inr xs"
  then show "xs = map (\<lambda>s. str_int (the (index s)))
             (filter (\<lambda>s. tag_or s ''language'' ''und'' = ''eng'' \<or> tag_or s ''language'' ''und'' = ''und'')
                (streams_of d))"
    by (rule audio_indices_spec)
next
  assume "list_all (\<lambda>s. index s \<noteq> None) (streams_of d)"
  then show "\<exists>ys. get_english_audio_indices d = Inr ys" by (rule audio_indices_total)
next
  assume h: "probe ev (path_join input_path file) (Some ''a'') = Inr d
        \<and> probe ev (path_join input_path file) None = Inr v
        \<and> probe ev (path_join input_path file) (Some ''s'') = Inr sd
        \<and> get_english_audio_indices d = Inr [] \<and> get_subtitle_streams sd = Inr subs"
  then have c: "convert_to_mp4 ev (path_join input_path file) t' m w'
        = (False, print (SYMBOL_ERROR @ '' No English audio found. Skipping.'') w')" for t' w'
    using convert_no_audio [of ev "path_join input_path file" d v sd subs t' m w'] by blast
  from c show "convert_to_mp4 ev (path_join input_path file) t m w
        = (False, print (SYMBOL_ERROR @ '' No English audio found. Skipping.'') w)" .
  have nf: "\<not> fst (convert_to_mp4 ev (path_join input_path file) (mktemp ev file) m w)"
    by (simp add: c)
  from process_file_failed(1) [OF nf]
  show "files (process_file ev input_path output_path m create_subfolders total_files idx file w)
          = insert (mktemp ev file) (files w)" .
  show "ops (process_file ev input_path output_path m create_subfolders total_files idx file w)
          = ops w @ [Create (mktemp ev file)]"
    by (simp add: process_file_def Let_def c report_total_def print_def did_def)
qed

text \<open>
  Selection on the streams of \<open>Movie.mkv\<close> and on four audio streams tagged \<open>eng\<close>,
  \<open>fre\<close>, \<open>und\<close> and untagged; \<open>Clip.mkv\<close> is skipped in encode mode.
\<close>

theorem C3_audio_selection_witness:
  "get_english_audio_indices \<lparr>streams = Some (container ''in/Movie.mkv'')\<rparr> = Inr [''0'', ''1'', ''2'', ''3'']
   \<and> get_english_audio_indices
        \<lparr>streams = Some [mk_stream 1 ''audio'' ''ac3'' (lang ''eng''), mk_stream 2 ''audio'' ''dts'' (lang ''fre''),
                         mk_stream 12 ''audio'' ''aac'' (lang ''und''), mk_stream 13 ''audio'' ''aac'' None]\<rparr>
        = Inr [''1'', ''12'', ''13'']
   \<and> list_all (\<lambda>s. index s \<noteq> None) (streams_of \<lparr>streams = Some (container ''in/Movie.mkv'')\<rparr>)
   \<and> probe demo_env (path_join ''in'' ''Clip.mkv'') (Some ''a'')
        = Inr \<lparr>streams = Some [mk_stream 1 ''audio'' ''aac'' (lang ''fre'')]\<rparr>
   \<and> get_english_audio_indices \<lparr>streams = Some [mk_stream 1 ''audio'' ''aac'' (lang ''fre'')]\<rparr> = Inr []
   \<and> convert_to_mp4 demo_env (path_join ''in'' ''Clip.mkv'') ''/tmp/tmpk3j2.mp4'' ''encode'' demo_world
        = (False, print (SYMBOL_ERROR @ '' No English audio found. Skipping.'') demo_world)
   \<and> ops (process_file demo_env ''in'' ''out'' ''encode'' True 1 1 ''Clip.mkv'' demo_world)
        = ops demo_world @ [Create (mktemp demo_env ''Clip.mkv'')]"
proof -
  have p1: "probe demo_env (path_join ''in'' ''Clip.mkv'') (Some ''a'')
        = Inr \<lparr>streams = Some [mk_stream 1 ''audio'' ''aac'' (lang ''fre'')]\<rparr>"
    by (simp add: demo_env_def demo_probe_def container_def path_join_def mk_stream_def)
  have p2: "probe demo_env (path_join ''in'' ''Clip.mkv'') None
        = Inr \<lparr>streams = Some (container ''in/Clip.mkv'')\<rparr>"
    by (simp add: demo_env_def demo_probe_def path_join_def)
  have p3: "probe demo_env (path_join ''in'' ''Clip.mkv'') (Some ''s'') = Inr \<lparr>streams = Some []\<rparr>"
    by (simp add: demo_env_def demo_probe_def container_def path_join_def mk_stream_def)
  have a: "get_english_audio_indices \<lparr>streams = Some [mk_stream 1 ''audio'' ''aac'' (lang ''fre'')]\<rparr> = Inr []"
    by code_simp
  have s: "get_subtitle_streams \<lparr>streams = Some []\<rparr> = Inr []" by code_simp
  have e1: "get_english_audio_indices \<lparr>streams = Some (container ''in/Movie.mkv'')\<rparr> = Inr [''0'', ''1'', ''2'', ''3'']"
    by code_simp
  have e2: "get_english_audio_indices
        \<lparr>streams = Some [mk_stream 1 ''audio'' ''ac3'' (lang ''eng''), mk_stream 2 ''audio'' ''dts'' (lang ''fre''),
                         mk_stream 12 ''audio'' ''aac'' (lang ''und''), mk_stream 13 ''audio'' ''aac'' None]\<rparr>
        = Inr [''1'', ''12'', ''13'']" by code_simp
  have e3: "list_all (\<lambda>s. index s \<noteq> None) (streams_of \<lparr>streams = Some (container ''in/Movie.mkv'')\<rparr>)"
    by code_simp
  from C3_audio_selection [of "\<lparr>streams = Some [mk_stream 1 ''audio'' ''aac'' (lang ''fre'')]\<rparr>" "[]"
      demo_env "''in''" "''Clip.mkv''" "\<lparr>streams = Some (container ''in/Clip.mkv'')\<rparr>"
      "\<lparr>streams = Some []\<rparr>" "[]" "''/tmp/tmpk3j2.mp4''" "''encode''" demo_world "''out''" True 1 1]
    p1 p2 p3 a s e1 e2 e3
  show ?thesis by blast
qed

text \<open>
  Claim C4, as the code has it. In remux mode a file whose detected video codec is
  \<open>av1\<close> is always skipped, and the engine is not run; when the probes succeed, at
  least one audio stream qualifies and subtitle selection returns, the line printed is
  \<open>AV1 codec detected. Please use encode mode.\<close> In every mode and for every codec,
  that line is printed only in remux mode for a detected codec \<open>av1\<close>: no other codec
  and no file in encode mode fails for this reason.
\<close>

theorem C4_av1_remux:
  "(probe ev f None = Inr v \<and> get_video_codec v = Some ''av1'' \<longrightarrow>
      fst (convert_to_mp4 ev f t ''remux'' w) = False
      \<and> ops (snd (convert_to_mp4 ev f t ''remux'' w)) = ops w)
   \<and> (probe ev f (Some ''a'') = Inr d \<and> probe ev f None = Inr v \<and> probe ev f (Some ''s'') = Inr sd
        \<and> get_english_audio_indices d = Inr a \<and> a \<noteq> [] \<and> get_subtitle_streams sd = Inr subs
        \<and> get_video_codec v = Some ''av1'' \<longrightarrow>
      convert_to_mp4 ev f t ''remux'' w
        = (False, print (SYMBOL_ERROR @ '' AV1 codec detected. Please use encode mode.'') w))
   \<and> (\<exists>new. logged (snd (convert_to_mp4 ev f t m w)) = logged w @ new
        \<and> (SYMBOL_ERROR @ '' AV1 codec detected. Please use encode mode.'' \<in> set new \<longrightarrow>
             m = ''remux'' \<and> (\<exists>v'. probe ev f None = Inr v' \<and> get_video_codec v' = Some ''av1'')))"
  using convert_av1_skipped [of ev f v t w] convert_av1 [of ev f d v sd a subs t w]
    convert_log [of ev f t m w]
  by blast

text \<open>
  The audio check comes before the codec check: \<open>Anime.mkv\<close> has AV1 video and no
  qualifying audio, and in remux mode it is skipped with the line about audio, not
  with the line about AV1.
\<close>

theorem C4_counterexample:
  "get_video_codec \<lparr>streams = Some (container ''in/Anime.mkv'')\<rparr> = Some ''av1''
   \<and> logged (snd (convert_to_mp4 demo_env ''in/Anime.mkv'' ''/tmp/tmpk3j2.mp4'' ''remux'' demo_world))
       = [''[X]  No English audio found. Skipping.'']
   \<and> ''[X]  AV1 codec detected. Please use encode mode.''
       \<notin> set (logged (snd (convert_to_mp4 demo_env ''in/Anime.mkv'' ''/tmp/tmpk3j2.mp4'' ''remux'' demo_world)))"
  by code_simp

text \<open>\<open>Show.mkv\<close>, AV1 with English audio: refused in remux mode, converted in encode mode.\<close>

theorem C4_av1_remux_witness:
  "probe demo_env ''in/Show.mkv'' None = Inr \<lparr>streams = Some (container ''in/Show.mkv'')\<rparr>
   \<and> get_video_codec \<lparr>streams = Some (container ''in/Show.mkv'')\<rparr> = Some ''av1''
   \<and> get_english_audio_indices \<lparr>streams = Some [mk_stream 1 ''audio'' ''opus'' (lang ''eng'')]\<rparr> = Inr [''1'']
   \<and> convert_to_mp4 demo_env ''in/Show.mkv'' ''/tmp/tmpk3j2.mp4'' ''remux'' demo_world
        = (False, print (SYMBOL_ERROR @ '' AV1 codec detected. Please use encode mode.'') demo_world)
   \<and> ops (snd (convert_to_mp4 demo_env ''in/Show.mkv'' ''/tmp/tmpk3j2.mp4'' ''remux'' demo_world)) = ops demo_world
   \<and> fst (convert_to_mp4 demo_env ''in/Show.mkv'' ''/tmp/tmpk3j2.mp4'' ''encode'' demo_world)
   \<and> SYMBOL_ERROR @ '' AV1 codec detected. Please use encode mode.''
        \<notin> set (logged (snd (convert_to_mp4 demo_env ''in/Show.mkv'' ''/tmp/tmpk3j2.mp4'' ''encode'' demo_world)))"
proof -
  have p1: "probe demo_env ''in/Show.mkv'' (Some ''a'')
        = Inr \<lparr>streams = Some [mk_stream 1 ''audio'' ''opus'' (lang ''eng'')]\<rparr>"
    by (simp add: demo_env_def demo_probe_def container_def mk_stream_def)
  have p2: "probe demo_env ''in/Show.mkv'' None = Inr \<lparr>streams = Some (container ''in/Show.mkv'')\<rparr>"
    by (simp add: demo_env_def demo_probe_def)
  have p3: "probe demo_env ''in/Show.mkv'' (Some ''s'') = Inr \<lparr>streams = Some []\<rparr>"
    by (simp add: demo_env_def demo_probe_def container_def mk_stream_def)
  have a: "get_english_audio_indices \<lparr>streams = Some [mk_stream 1 ''audio'' ''opus'' (lang ''eng'')]\<rparr> = Inr [''1'']"
    by code_simp
  have ne: "[''1''] \<noteq> ([] :: string list)" by simp
  have s: "get_subtitle_streams \<lparr>streams = Some []\<rparr> = Inr []" by code_simp
  have c: "get_video_codec \<lparr>streams = Some (container ''in/Show.mkv'')\<rparr> = Some ''av1''" by code_simp
  have e: "fst (convert_to_mp4 demo_env ''in/Show.mkv'' ''/tmp/tmpk3j2.mp4'' ''encode'' demo_world)"
    by code_simp
  have l: "logged demo_world = []" by (simp add: demo_world_def)
  have n: "''encode'' \<noteq> ''remux''" by simp
  from C4_av1_remux [of demo_env "''in/Show.mkv''" "\<lparr>streams = Some (container ''in/Show.mkv'')\<rparr>"
      "''/tmp/tmpk3j2.mp4''" demo_world "\<lparr>streams = Some [mk_stream 1 ''audio'' ''opus'' (lang ''eng'')]\<rparr>"
      "\<lparr>streams = Some []\<rparr>" "[''1'']" "[]" "''encode''"]
    p1 p2 p3 a ne s c e n
  show ?thesis unfolding l by auto
qed

lemma tag_or_missing:
  "tags s = None \<or> (\<exists>t. tags s = Some t \<and> t key = None) \<Longrightarrow> tag_or s key dflt = dflt"
  by (auto simp: tag_or_def)

lemma subtitle_cond_iff:
  "subtitle_cond s \<longleftrightarrow>
     (\<exists>n. codec_name s = Some n \<and> (n = ''subrip'' \<or> n = ''ass'' \<or> n = ''ssa'' \<or> n = ''mov_text''))
     \<and> (tag_or s ''language'' ''und'' = ''eng'' \<or> tag_or s ''language'' ''und'' = ''und'')"
  unfolding subtitle_cond_def valid_codecs_def
  by (cases "codec_name s") (simp_all del: list.inject)

lemma subtitle_entry_Inr:
  "subtitle_entry s = Inr e \<Longrightarrow>
     (\<exists>i. index s = Some i \<and> sub_index e = str_int i)
     \<and> sub_language e = tag_or s ''language'' ''und''
     \<and> sub_codec e = (case codec_name s of None \<Rightarrow> ''unknown'' | Some n \<Rightarrow> n)"
  by (auto simp: subtitle_entry_def str_index_def split: option.splits)

text \<open>
  Claim C9. A stream without a \<open>tags\<close> object, or whose tags have no \<open>language\<close>
  entry, is read as language \<open>und\<close>. As an audio stream it passes the audio rule, and
  its index is in every list audio selection returns for a document that holds it. As a
  subtitle stream it passes the subtitle rule exactly when its codec is one of
  \<open>subrip\<close>, \<open>ass\<close>, \<open>ssa\<close>, \<open>mov_text\<close>, and then it is among the candidates, with
  language \<open>und\<close>.
\<close>

theorem C9_missing_language_is_und:
  assumes "tags s = None \<or> (\<exists>t. tags s = Some t \<and> t ''language'' = None)"
  shows "tag_or s ''language'' ''und'' = ''und''
     \<and> audio_cond s
     \<and> (s \<in> set (streams_of d) \<and> get_english_audio_indices d = Inr xs \<longrightarrow>
           (\<exists>i. index s = Some i \<and> str_int i \<in> set xs))
     \<and> (subtitle_cond s \<longleftrightarrow>
           (\<exists>n. codec_name s = Some n \<and> (n = ''subrip'' \<or> n = ''ass'' \<or> n = ''ssa'' \<or> n = ''mov_text'')))
     \<and> (s \<in> set (streams_of sd) \<and> get_subtitle_streams sd = Inr subs
          \<and> codec_name s = Some n \<and> (n = ''subrip'' \<or> n = ''ass'' \<or> n = ''ssa'' \<or> n = ''mov_text'') \<longrightarrow>
           (\<exists>e i. e \<in> set subs \<and> index s = Some i \<and> sub_index e = str_int i
                  \<and> sub_language e = ''und'' \<and> sub_codec e = n))"
proof -
  have und: "tag_or s ''language'' ''und'' = ''und''"
    using assms by (rule tag_or_missing)
  then have ac: "audio_cond s" by (simp add: audio_cond_iff)
  have sc: "subtitle_cond s \<longleftrightarrow>
           (\<exists>n. codec_name s = Some n \<and> (n = ''subrip'' \<or> n = ''ass'' \<or> n = ''ssa'' \<or> n = ''mov_text''))"
    using und by (simp add: subtitle_cond_iff)
  have au: "\<exists>i. index s = Some i \<and> str_int i \<in> set xs"
    if "s \<in> set (streams_of d)" "get_english_audio_indices d = Inr xs"
  proof -
    from comprehension_mem [OF that(2) [unfolded get_english_audio_indices_def] that(1) ac]
    obtain y where "str_index s = Inr y" "y \<in> set xs" by blast
    then show ?thesis by (auto simp: str_index_Inr)
  qed
  have su: "\<exists>e i. e \<in> set subs \<and> index s = Some i \<and> sub_index e = str_int i
                  \<and> sub_language e = ''und'' \<and> sub_codec e = n"
    if "s \<in> set (streams_of sd)" "get_subtitle_streams sd = Inr subs"
      "codec_name s = Some n" "n = ''subrip'' \<or> n = ''ass'' \<or> n = ''ssa'' \<or> n = ''mov_text''"
  proof -
    from that(3,4) sc have c: "subtitle_cond s" by blast
    from comprehension_mem [OF that(2) [unfolded get_subtitle_streams_def] that(1) c]
    obtain e where e: "subtitle_entry s = Inr e" "e \<in> set subs" by blast
    from subtitle_entry_Inr [OF e(1)] und that(3) e(2) show ?thesis by auto
  qed
  from und ac sc au su show ?thesis by blast
qed

text \<open>An untagged ASS subtitle stream, index 3.\<close>

theorem C9_missing_language_is_und_witness:
  "(tags (mk_stream 3 ''subtitle'' ''ass'' None) = None
      \<or> (\<exists>t. tags (mk_stream 3 ''subtitle'' ''ass'' None) = Some t \<and> t ''language'' = None))
   \<and> tag_or (mk_stream 3 ''subtitle'' ''ass'' None) ''language'' ''und'' = ''und''
   \<and> audio_cond (mk_stream 3 ''subtitle'' ''ass'' None)
   \<and> subtitle_cond (mk_stream 3 ''subtitle'' ''ass'' None)
   \<and> get_english_audio_indices \<lparr>streams = Some [mk_stream 3 ''subtitle'' ''ass'' None]\<rparr> = Inr [''3'']
   \<and> map sub_index (projr (get_subtitle_streams \<lparr>streams = Some [mk_stream 3 ''subtitle'' ''ass'' None]\<rparr>)) = [''3'']
   \<and> map sub_language (projr (get_subtitle_streams \<lparr>streams = Some [mk_stream 3 ''subtitle'' ''ass'' None]\<rparr>)) = [''und'']"
proof -
  have h: "tags (mk_stream 3 ''subtitle'' ''ass'' None) = None
      \<or> (\<exists>t. tags (mk_stream 3 ''subtitle'' ''ass'' None) = Some t \<and> t ''language'' = None)"
    by (simp add: mk_stream_def)
  have n: "codec_name (mk_stream 3 ''subtitle'' ''ass'' None) = Some ''ass''" by (simp add: mk_stream_def)
  have a: "get_english_audio_indices \<lparr>streams = Some [mk_stream 3 ''subtitle'' ''ass'' None]\<rparr> = Inr [''3'']"
    by code_simp
  have s1: "map sub_index (projr (get_subtitle_streams \<lparr>streams = Some [mk_stream 3 ''subtitle'' ''ass'' None]\<rparr>)) = [''3'']"
    by code_simp
  have s2: "map sub_language (projr (get_subtitle_streams \<lparr>streams = Some [mk_stream 3 ''subtitle'' ''ass'' None]\<rparr>)) = [''und'']"
    by code_simp
  from C9_missing_language_is_und [OF h] h n a s1 s2 show ?thesis by blast
qed

lemma count_audio_args:
  "count_list (concat (map (\<lambda>idx. [''-map'', ''0:'' @ idx, ''-metadata:s:a:0'', ''language=eng'']) a)) ''-c:s'' = 0"
  by (induction a) simp_all

lemma butlast_build:
  "butlast (build_ffmpeg_cmd input_file temp_file mode video_codec audio_indices subs) =
     butlast (build_ffmpeg_cmd input_file temp_file mode video_codec audio_indices [])
     @ (case subs of
          [] \<Rightarrow> []
        | sub # _ \<Rightarrow> [''-map'', ''0:'' @ sub_index sub, ''-c:s'', ''mov_text'',
                      ''-metadata:s:s:0'', ''language='' @ sub_language sub])"
  by (simp add: build_ffmpeg_cmd_parts butlast_append)

lemma base_has_no_subtitle:
  "count_list (drop 3 (butlast (build_ffmpeg_cmd input_file temp_file mode video_codec audio_indices []))) ''-c:s'' = 0"
proof -
  have "butlast (build_ffmpeg_cmd input_file temp_file mode video_codec audio_indices []) =
     (if mode = ''encode'' then encode_template input_file
      else remux_template input_file
           @ (if video_codec = Some ''hevc'' then [''-tag:v'', ''hvc1''] else []))
     @ concat (map (\<lambda>idx. [''-map'', ''0:'' @ idx, ''-metadata:s:a:0'', ''language=eng''])
                 audio_indices)"
    by (simp add: build_ffmpeg_cmd_parts butlast_append)
  then show ?thesis
    by (simp add: encode_template_def remux_template_def count_audio_args)
qed

lemma base_length: "3 \<le> length (butlast (build_ffmpeg_cmd input_file temp_file mode video_codec audio_indices []))"
  by (simp add: build_ffmpeg_cmd_parts butlast_append encode_template_def remux_template_def)

text \<open>
  Claim C6. Let subtitle selection return its candidates. When no stream passes the
  subtitle rule, the command is the command without subtitles and holds no \<open>-c:s\<close>.
  When \<open>s\<close> is the first stream in probe order that passes the rule, the command is the
  command without subtitles, with the six arguments that map stream \<open>s\<close>, convert it to
  \<open>mov_text\<close> and tag it with its language put before the output file; it holds \<open>-c:s\<close>
  once, however many streams qualify. (The first three arguments, which hold the input
  path, and the output file are left out of the count.)
\<close>

theorem C6_first_subtitle_only:
  assumes "get_subtitle_streams sd = Inr subs"
  shows "(find subtitle_cond (streams_of sd) = None \<longrightarrow>
            build_ffmpeg_cmd input_file temp_file mode video_codec audio_indices subs
              = build_ffmpeg_cmd input_file temp_file mode video_codec audio_indices []
            \<and> count_list (drop 3 (butlast
                 (build_ffmpeg_cmd input_file temp_file mode video_codec audio_indices subs))) ''-c:s'' = 0)
     \<and> (\<forall>s. find subtitle_cond (streams_of sd) = Some s \<longrightarrow>
            (\<exists>n. index s = Some n
               \<and> build_ffmpeg_cmd input_file temp_file mode video_codec audio_indices subs
                   = butlast (build_ffmpeg_cmd input_file temp_file mode video_codec audio_indices [])
                     @ [''-map'', ''0:'' @ str_int n, ''-c:s'', ''mov_text'', ''-metadata:s:s:0'',
                        ''language='' @ tag_or s ''language'' ''und'', temp_file])
            \<and> count_list (drop 3 (butlast
                 (build_ffmpeg_cmd input_file temp_file mode video_codec audio_indices subs))) ''-c:s'' = 1)"
proof (intro conjI allI impI)
  assume none: "find subtitle_cond (streams_of sd) = None"
  from comprehension_find_None [OF assms [unfolded get_subtitle_streams_def] none]
  have e: "subs = []" .
  show "build_ffmpeg_cmd input_file temp_file mode video_codec audio_indices subs
              = build_ffmpeg_cmd input_file temp_file mode video_codec audio_indices []"
    by (simp add: e)
  show "count_list (drop 3 (butlast
                 (build_ffmpeg_cmd input_file temp_file mode video_codec audio_indices subs))) ''-c:s'' = 0"
    unfolding e by (rule base_has_no_subtitle)
next
  fix s
  assume some: "find subtitle_cond (streams_of sd) = Some s"
  from comprehension_find_Some [OF assms [unfolded get_subtitle_streams_def] some]
  obtain e rest where e: "subtitle_entry s = Inr e" "subs = e # rest" by blast
  from subtitle_entry_Inr [OF e(1)] obtain n where
    n: "index s = Some n" "sub_index e = str_int n" "sub_language e = tag_or s ''language'' ''und''"
    by blast
  have b: "butlast (build_ffmpeg_cmd input_file temp_file mode video_codec audio_indices subs)
      = butlast (build_ffmpeg_cmd input_file temp_file mode video_codec audio_indices [])
        @ [''-map'', ''0:'' @ str_int n, ''-c:s'', ''mov_text'', ''-metadata:s:s:0'',
           ''language='' @ tag_or s ''language'' ''und'']"
    using butlast_build [of input_file temp_file mode video_codec audio_indices "e # rest"]
    by (simp add: e(2) n)

  have l: "last (build_ffmpeg_cmd input_file temp_file mode video_codec audio_indices subs) = temp_file"
    "build_ffmpeg_cmd input_file temp_file mode video_codec audio_indices subs \<noteq> []"
    by (simp_all add: build_ffmpeg_cmd_parts)
  have "build_ffmpeg_cmd input_file temp_file mode video_codec audio_indices subs
      = butlast (build_ffmpeg_cmd input_file temp_file mode video_codec audio_indices subs) @ [temp_file]"
    using l append_butlast_last_id by metis
  with b have full: "build_ffmpeg_cmd input_file temp_file mode video_codec audio_indices subs
                   = butlast (build_ffmpeg_cmd input_file temp_file mode video_codec audio_indices [])
                     @ [''-map'', ''0:'' @ str_int n, ''-c:s'', ''mov_text'', ''-metadata:s:s:0'',
                        ''language='' @ tag_or s ''language'' ''und'', temp_file]"
    by simp
  with n(1) show "\<exists>n. index s = Some n
               \<and> build_ffmpeg_cmd input_file temp_file mode video_codec audio_indices subs
                   = butlast (build_ffmpeg_cmd input_file temp_file mode video_codec audio_indices [])
                     @ [''-map'', ''0:'' @ str_int n, ''-c:s'', ''mov_text'', ''-metadata:s:s:0'',
                        ''language='' @ tag_or s ''language'' ''und'', temp_file]"
    by blast
  show "count_list (drop 3 (butlast
                 (build_ffmpeg_cmd input_file temp_file mode video_codec audio_indices subs))) ''-c:s'' = 1"
    unfolding b using base_length [of input_file temp_file mode video_codec audio_indices]
      base_has_no_subtitle [of input_file temp_file mode video_codec audio_indices]
    by simp
qed


text \<open>Two qualifying subtitle streams, 2 and 3: only stream 2 is mapped.\<close>

theorem C6_first_subtitle_only_witness:
  "get_subtitle_streams \<lparr>streams = Some [mk_stream 2 ''subtitle'' ''subrip'' (lang ''eng''),
                                          mk_stream 3 ''subtitle'' ''ass'' None]\<rparr>
     = Inr [\<lparr>sub_index = ''2'', sub_codec = ''subrip'', sub_language = ''eng'', sub_title = []\<rparr>,
            \<lparr>sub_index = ''3'', sub_codec = ''ass'', sub_language = ''und'', sub_title = []\<rparr>]
   \<and> find subtitle_cond (streams_of \<lparr>streams = Some [mk_stream 2 ''subtitle'' ''subrip'' (lang ''eng''),
                                                        mk_stream 3 ''subtitle'' ''ass'' None]\<rparr>)
       = Some (mk_stream 2 ''subtitle'' ''subrip'' (lang ''eng''))
   \<and> build_ffmpeg_cmd ''in/Movie.mkv'' ''/tmp/t.mp4'' ''remux'' (Some ''hevc'') [''1'']
        [\<lparr>sub_index = ''2'', sub_codec = ''subrip'', sub_language = ''eng'', sub_title = []\<rparr>,
         \<lparr>sub_index = ''3'', sub_codec = ''ass'', sub_language = ''und'', sub_title = []\<rparr>]
       = butlast (build_ffmpeg_cmd ''in/Movie.mkv'' ''/tmp/t.mp4'' ''remux'' (Some ''hevc'') [''1''] [])
         @ [''-map'', ''0:2'', ''-c:s'', ''mov_text'', ''-metadata:s:s:0'', ''language=eng'', ''/tmp/t.mp4'']
   \<and> count_list (drop 3 (butlast (build_ffmpeg_cmd ''in/Movie.mkv'' ''/tmp/t.mp4'' ''remux'' (Some ''hevc'') [''1'']
        [\<lparr>sub_index = ''2'', sub_codec = ''subrip'', sub_language = ''eng'', sub_title = []\<rparr>,
         \<lparr>sub_index = ''3'', sub_codec = ''ass'', sub_language = ''und'', sub_title = []\<rparr>]))) ''-c:s'' = 1"
proof -
  have h: "get_subtitle_streams \<lparr>streams = Some [mk_stream 2 ''subtitle'' ''subrip'' (lang ''eng''),
                                          mk_stream 3 ''subtitle'' ''ass'' None]\<rparr>
     = Inr [\<lparr>sub_index = ''2'', sub_codec = ''subrip'', sub_language = ''eng'', sub_title = []\<rparr>,
            \<lparr>sub_index = ''3'', sub_codec = ''ass'', sub_language = ''und'', sub_title = []\<rparr>]"
    by code_simp
  have f: "find subtitle_cond (streams_of \<lparr>streams = Some [mk_stream 2 ''subtitle'' ''subrip'' (lang ''eng''),
                                                        mk_stream 3 ''subtitle'' ''ass'' None]\<rparr>)
       = Some (mk_stream 2 ''subtitle'' ''subrip'' (lang ''eng''))"
    by (simp add: streams_of_def mk_stream_def lang_def subtitle_cond_def valid_codecs_def tag_or_def)
  have i: "index (mk_stream 2 ''subtitle'' ''subrip'' (lang ''eng'')) = Some 2"
    "tag_or (mk_stream 2 ''subtitle'' ''subrip'' (lang ''eng'')) ''language'' ''und'' = ''eng''"
    by (simp_all add: mk_stream_def lang_def tag_or_def)
  have d: "str_int 2 = ''2''" by code_simp
  from C6_first_subtitle_only [OF h, of "''in/Movie.mkv''" "''/tmp/t.mp4''" "''remux''" "Some ''hevc''" "[''1'']"]
    f i d h
  show ?thesis by auto
qed

lemma first_video_find:
  "first_video ss =
     (case find (\<lambda>s. codec_type s = Some ''video'') ss of
        None \<Rightarrow> None
      | Some s \<Rightarrow> Some (lower (case codec_name s of None \<Rightarrow> [] | Some n \<Rightarrow> n)))"
  by (induction ss) (simp_all del: list.inject)

lemma hevc_tag_present:
  "\<exists>pre post. build_ffmpeg_cmd i t ''remux'' (Some ''hevc'') a subs = pre @ [''-tag:v'', ''hvc1''] @ post"
proof -
  have "build_ffmpeg_cmd i t ''remux'' (Some ''hevc'') a subs =
     remux_template i @ [''-tag:v'', ''hvc1'']
     @ (concat (map (\<lambda>idx. [''-map'', ''0:'' @ idx, ''-metadata:s:a:0'', ''language=eng'']) a)
     @ (case subs of
          [] \<Rightarrow> []
        | sub # _ \<Rightarrow> [''-map'', ''0:'' @ sub_index sub, ''-c:s'', ''mov_text'',
                      ''-metadata:s:s:0'', ''language='' @ sub_language sub])
     @ [t])"
    unfolding build_ffmpeg_cmd_parts by simp
  then show ?thesis by blast
qed

text \<open>
  Claim C10. The detected video codec is the lower-cased codec name (the empty string
  when the name is missing) of the first stream of type \<open>video\<close>, and \<open>None\<close> when no
  stream has that type. So a first video stream whose codec name is \<open>hevc\<close> in any
  letter case gets the \<open>hvc1\<close> tag in remux mode, and one whose codec name is \<open>av1\<close> in
  any letter case makes remux mode skip the file without running the engine.
\<close>

theorem C10_video_codec_lowercased:
  "get_video_codec d =
     (case find (\<lambda>s. codec_type s = Some ''video'') (streams_of d) of
        None \<Rightarrow> None
      | Some s \<Rightarrow> Some (lower (case codec_name s of None \<Rightarrow> [] | Some n \<Rightarrow> n)))
   \<and> (list_all (\<lambda>s. codec_type s \<noteq> Some ''video'') (streams_of d) \<longrightarrow> get_video_codec d = None)
   \<and> (\<forall>s n. find (\<lambda>s. codec_type s = Some ''video'') (streams_of d) = Some s
          \<and> codec_name s = Some n \<and> lower n = ''hevc'' \<longrightarrow>
        (\<exists>pre post. build_ffmpeg_cmd i t ''remux'' (get_video_codec d) a subs
                       = pre @ [''-tag:v'', ''hvc1''] @ post))
   \<and> (\<forall>s n. find (\<lambda>s. codec_type s = Some ''video'') (streams_of d) = Some s
          \<and> codec_name s = Some n \<and> lower n = ''av1'' \<and> probe ev f None = Inr d \<longrightarrow>
        fst (convert_to_mp4 ev f t ''remux'' w) = False
        \<and> ops (snd (convert_to_mp4 ev f t ''remux'' w)) = ops w)"
proof (intro conjI allI impI)
  show g: "get_video_codec d =
     (case find (\<lambda>s. codec_type s = Some ''video'') (streams_of d) of
        None \<Rightarrow> None
      | Some s \<Rightarrow> Some (lower (case codec_name s of None \<Rightarrow> [] | Some n \<Rightarrow> n)))"
    unfolding get_video_codec_def by (rule first_video_find)
  {
    assume "list_all (\<lambda>s. codec_type s \<noteq> Some ''video'') (streams_of d)"
    then have "find (\<lambda>s. codec_type s = Some ''video'') (streams_of d) = None"
      by (simp add: find_None_iff list_all_iff)
    with g show "get_video_codec d = None" by simp
  }
  {
    fix s n
    assume "find (\<lambda>s. codec_type s = Some ''video'') (streams_of d) = Some s
          \<and> codec_name s = Some n \<and> lower n = ''hevc''"
    with g have "get_video_codec d = Some ''hevc''" by simp
    with hevc_tag_present [of i t a subs]
    show "\<exists>pre post. build_ffmpeg_cmd i t ''remux'' (get_video_codec d) a subs
                       = pre @ [''-tag:v'', ''hvc1''] @ post" by simp
  }
  {
    fix s n
    assume h: "find (\<lambda>s. codec_type s = Some ''video'') (streams_of d) = Some s
          \<and> codec_name s = Some n \<and> lower n = ''av1'' \<and> probe ev f None = Inr d"
    with g have c: "get_video_codec d = Some ''av1''" by simp
    from h have p: "probe ev f None = Inr d" by simp
    from convert_av1_skipped [OF p c, of t w]
    show "fst (convert_to_mp4 ev f t ''remux'' w) = False"
      and "ops (snd (convert_to_mp4 ev f t ''remux'' w)) = ops w" by simp_all
  }
qed

text \<open>\<open>Show.mkv\<close> reports \<open>AV1\<close> in upper case and is refused in remux mode.\<close>

theorem C10_video_codec_lowercased_witness:
  "find (\<lambda>s. codec_type s = Some ''video'') (streams_of \<lparr>streams = Some (container ''in/Show.mkv'')\<rparr>)
     = Some (mk_stream 0 ''video'' ''AV1'' None)
   \<and> lower ''AV1'' = ''av1'' \<and> lower ''HEVC'' = ''hevc'' \<and> lower ''Hevc'' = ''hevc'' \<and> lower ''h264'' = ''h264''
   \<and> get_video_codec \<lparr>streams = Some (container ''in/Show.mkv'')\<rparr> = Some ''av1''
   \<and> get_video_codec \<lparr>streams = Some [mk_stream 1 ''audio'' ''aac'' None, mk_stream 0 ''video'' ''HEVC'' None,
                                          mk_stream 2 ''video'' ''mjpeg'' None]\<rparr> = Some ''hevc''
   \<and> get_video_codec \<lparr>streams = Some [mk_stream 1 ''audio'' ''aac'' None]\<rparr> = None
   \<and> get_video_codec \<lparr>streams = None\<rparr> = None
   \<and> fst (convert_to_mp4 demo_env ''in/Show.mkv'' ''/tmp/tmpk3j2.mp4'' ''remux'' demo_world) = False
   \<and> ops (snd (convert_to_mp4 demo_env ''in/Show.mkv'' ''/tmp/tmpk3j2.mp4'' ''remux'' demo_world)) = ops demo_world"
proof -
  have f: "find (\<lambda>s. codec_type s = Some ''video'') (streams_of \<lparr>streams = Some (container ''in/Show.mkv'')\<rparr>)
     = Some (mk_stream 0 ''video'' ''AV1'' None)"
    by (simp add: streams_of_def container_def mk_stream_def)
  have n: "codec_name (mk_stream 0 ''video'' ''AV1'' None) = Some ''AV1''" by (simp add: mk_stream_def)
  have l: "lower ''AV1'' = ''av1''" "lower ''HEVC'' = ''hevc''" "lower ''Hevc'' = ''hevc''" "lower ''h264'' = ''h264''"
    by code_simp+
  have p: "probe demo_env ''in/Show.mkv'' None = Inr \<lparr>streams = Some (container ''in/Show.mkv'')\<rparr>"
    by (simp add: demo_env_def demo_probe_def)
  have g: "get_video_codec \<lparr>streams = Some (container ''in/Show.mkv'')\<rparr> = Some ''av1''"
    "get_video_codec \<lparr>streams = Some [mk_stream 1 ''audio'' ''aac'' None, mk_stream 0 ''video'' ''HEVC'' None,
                                          mk_stream 2 ''video'' ''mjpeg'' None]\<rparr> = Some ''hevc''"
    "get_video_codec \<lparr>streams = Some [mk_stream 1 ''audio'' ''aac'' None]\<rparr> = None"
    "get_video_codec \<lparr>streams = None\<rparr> = None"
    by code_simp+
  from C10_video_codec_lowercased [where d = "\<lparr>streams = Some (container ''in/Show.mkv'')\<rparr>"
      and ev = demo_env and f = "''in/Show.mkv''" and t = "''/tmp/tmpk3j2.mp4''" and w = demo_world]
    f n l p g

  show ?thesis by blast
qed

end
